theory Spec2Isabelle
  imports Complex_Main "HOL-Library.AList"
begin

section \<open>Numbers and vectors\<close>

text \<open>
  JavaScript numbers are modelled as the real numbers they approximate: rounding,
  infinities and NaN are outside the model. \<open>Math.pow b e\<close> is \<open>b ^ 2\<close> for the
  exponent 2 and \<open>b powr e\<close> for a fractional exponent on a non-negative base.

  \<open>THREE.Vector3\<close> and \<open>CANNON.Vec3\<close> are records of three numbers; the methods used
  by the program (\<open>sub\<close>, \<open>length\<close>, \<open>normalize\<close>, \<open>addScaledVector\<close>, \<open>distanceTo\<close>,
  \<open>vadd\<close>) are written out as pure functions.
\<close>

record Vector3 =
  vx :: real
  vy :: real
  vz :: real

definition vec3 :: "real \<Rightarrow> real \<Rightarrow> real \<Rightarrow> Vector3" where
  "vec3 a b c = \<lparr>vx = a, vy = b, vz = c\<rparr>"

definition zero3 :: Vector3 where
  "zero3 = vec3 0 0 0"

definition sub :: "Vector3 \<Rightarrow> Vector3 \<Rightarrow> Vector3" where
  "sub a b = vec3 (vx a - vx b) (vy a - vy b) (vz a - vz b)"

definition vadd :: "Vector3 \<Rightarrow> Vector3 \<Rightarrow> Vector3" where
  "vadd a b = vec3 (vx a + vx b) (vy a + vy b) (vz a + vz b)"

definition vlength :: "Vector3 \<Rightarrow> real" where
  "vlength a = sqrt (vx a * vx a + vy a * vy a + vz a * vz a)"

definition multiplyScalar :: "Vector3 \<Rightarrow> real \<Rightarrow> Vector3" where
  "multiplyScalar a s = vec3 (vx a * s) (vy a * s) (vz a * s)"

text \<open>\<open>normalize\<close> is \<open>divideScalar (length () || 1)\<close>, and \<open>divideScalar s\<close> is
  \<open>multiplyScalar (1 / s)\<close>.\<close>

definition normalizeV :: "Vector3 \<Rightarrow> Vector3" where
  "normalizeV a = multiplyScalar a (1 / (if vlength a = 0 then 1 else vlength a))"

definition addScaledVector :: "Vector3 \<Rightarrow> Vector3 \<Rightarrow> real \<Rightarrow> Vector3" where
  "addScaledVector a v s = vec3 (vx a + vx v * s) (vy a + vy v * s) (vz a + vz v * s)"

definition distanceTo :: "Vector3 \<Rightarrow> Vector3 \<Rightarrow> real" where
  "distanceTo a b =
     sqrt ((vx a - vx b) * (vx a - vx b) + (vy a - vy b) * (vy a - vy b)
           + (vz a - vz b) * (vz a - vz b))"

section \<open>The tornado (growth-ceiling variant)\<close>

record Particle =
  angle :: real
  height :: real
  targetRadiusFactor :: real
  spinSpeed :: real
  upwardSpeed :: real
  phase :: real
  turbulenceOffset :: real
  radialOscillation :: real
  radialPhase :: real
  chaosInitial :: real
  chaosFactor :: real
  chaosXFactor :: real
  chaosZFactor :: real
  chaosYFactor :: real

record Tornado =
  particleCount :: nat
  maxHeight :: real
  maxRadius :: real
  coreRadius :: real
  position :: Vector3
  velocity :: Vector3
  tornadoForceStrength :: real
  time :: real
  formationTime :: real
  formationDuration :: real
  particles :: "Particle list"
  positions :: "Vector3 list"

record ForceResult =
  force :: Vector3
  torque :: Vector3

subsection \<open>calculateForceOnObject\<close>

text \<open>The locals of \<open>calculateForceOnObject\<close>, in the order the method computes them.
  \<open>distance\<close> is the length of \<open>dirToCenter\<close>, the vector from the query position to
  the field center moved to the query's height: the y coordinates do not count.\<close>

definition tornadoCenter :: "Tornado \<Rightarrow> Vector3 \<Rightarrow> Vector3" where
  "tornadoCenter t objectPos = (position t)\<lparr>vy := vy objectPos\<rparr>"

definition dirToCenter :: "Tornado \<Rightarrow> Vector3 \<Rightarrow> Vector3" where
  "dirToCenter t objectPos = sub (tornadoCenter t objectPos) objectPos"

definition distance :: "Tornado \<Rightarrow> Vector3 \<Rightarrow> real" where
  "distance t objectPos = vlength (dirToCenter t objectPos)"

definition falloff :: "Tornado \<Rightarrow> Vector3 \<Rightarrow> real" where
  "falloff t objectPos = (1 - distance t objectPos / maxRadius t) ^ 2"

text \<open>The two quotients by the mass. Every caller passes a mass that is not zero
  (\<open>ModelLoader\<close> tests \<open>mass > 0\<close>, the mass of a fragment is
  \<open>debrisMass || 0.5\<close> or \<open>debrisMass || 10\<close>); a division by zero, which gives
  \<open>Infinity\<close> or \<open>NaN\<close> in JavaScript, is outside the model, like the rounding of
  the quotient.\<close>

definition baseForce :: "Tornado \<Rightarrow> Vector3 \<Rightarrow> real \<Rightarrow> real" where
  "baseForce t objectPos mass = (tornadoForceStrength t * falloff t objectPos) / mass"

definition liftForce :: "Tornado \<Rightarrow> Vector3 \<Rightarrow> real \<Rightarrow> real" where
  "liftForce t objectPos mass = (200 * falloff t objectPos) / mass"

text \<open>
  The method, together with the list of the vectors it has called \<open>normalize\<close> on:
  \<open>dirToCenter.normalize ()\<close> is the only such call, and it stands in the guarded
  branch.
\<close>

definition calculateForceOnObjectLogged ::
  "Tornado \<Rightarrow> Vector3 \<Rightarrow> real \<Rightarrow> ForceResult \<times> Vector3 list" where
  "calculateForceOnObjectLogged t objectPos mass =
     (if distance t objectPos < maxRadius t \<and> distance t objectPos > 0.1 then
        (let d = normalizeV (dirToCenter t objectPos);
             b = baseForce t objectPos mass;
             f1 = addScaledVector zero3 d (b * 0.7);
             f2 = f1\<lparr>vy := vy f1 + liftForce t objectPos mass\<rparr>;
             tangential = vec3 (- vz d) 0 (vx d);
             f3 = addScaledVector f2 tangential (b * 0.5)
         in (\<lparr>force = f3,
              torque = vec3 (sin (time t * 2) * b * 0.3) (b * 1.2) (cos (time t * 2) * b * 0.3)\<rparr>,
             [dirToCenter t objectPos]))
      else (\<lparr>force = zero3, torque = zero3\<rparr>, []))"

text \<open>What the method returns.\<close>

definition calculateForceOnObject :: "Tornado \<Rightarrow> Vector3 \<Rightarrow> real \<Rightarrow> ForceResult" where
  "calculateForceOnObject t objectPos mass = fst (calculateForceOnObjectLogged t objectPos mass)"

text \<open>The distance of the specification's radius test, read as the distance of the two
  points in space.\<close>

definition spec_distance :: "Tornado \<Rightarrow> Vector3 \<Rightarrow> real" where
  "spec_distance t objectPos = distanceTo objectPos (position t)"

subsection \<open>Construction of the particle pool\<close>

text \<open>
  \<open>Math.random ()\<close> is modelled by the sequence of values it is going to return: a
  function reads the values it draws from the front (\<open>r 0\<close>, \<open>r 1\<close>, ...) and hands the
  rest of the sequence on. Every value lies in the interval from 0 (included) to 1
  (excluded); theorems that need this assume it.
\<close>

type_synonym random = "nat \<Rightarrow> real"

definition skip :: "nat \<Rightarrow> random \<Rightarrow> random" where
  "skip n r = (\<lambda>k. r (k + n))"

definition calculateMaxRadius :: "Tornado \<Rightarrow> real \<Rightarrow> real" where
  "calculateMaxRadius t h =
     (let normalized = h / maxHeight t;
          profile = 0.15 + (normalized powr 0.7) * 0.85
      in maxRadius t * profile)"

definition calculateAngularVelocity :: "real \<Rightarrow> real \<Rightarrow> real \<Rightarrow> real" where
  "calculateAngularVelocity radius maxRadiusAtHeight baseSpeed =
     (let normalized = radius / maxRadiusAtHeight;
          velocityProfile = exp (- (((normalized - 0.8) * 3) ^ 2))
      in baseSpeed * (0.3 + velocityProfile * 2))"

text \<open>One round of the loop of \<open>createGeometryAndMesh\<close>: the particle and its initial
  position, from fifteen random draws in the order of the source.\<close>

definition createParticle :: "Tornado \<Rightarrow> random \<Rightarrow> Particle \<times> Vector3" where
  "createParticle t r =
     (let randomHeight = (r 0 powr 1.5) * maxHeight t;
          particle = \<lparr>angle = r 1 * 2 * pi,
                      height = randomHeight,
                      targetRadiusFactor = 0.7 + r 2 * 0.3,
                      spinSpeed = 2.0 + r 3 * 2.5,
                      upwardSpeed = 3.0 + r 4 * 3.0,
                      phase = r 5 * pi * 2,
                      turbulenceOffset = r 6 * 10,
                      radialOscillation = r 7 * 0.5,
                      radialPhase = r 8 * pi * 2,
                      chaosInitial = r 9 * 5,
                      chaosFactor = 2.0,
                      chaosXFactor = r 10 - 0.5,
                      chaosZFactor = r 11 - 0.5,
                      chaosYFactor = r 12 - 0.5\<rparr>;
          y = height particle;
          baseRadius = calculateMaxRadius t y;
          initialChaosX = (r 13 - 0.5) * chaosInitial particle;
          initialChaosZ = (r 14 - 0.5) * chaosInitial particle;
          radius = baseRadius * targetRadiusFactor particle;
          x = radius * cos (angle particle) + initialChaosX;
          z = radius * sin (angle particle) + initialChaosZ
      in (particle, vec3 x y z))"

fun createParticles :: "Tornado \<Rightarrow> nat \<Rightarrow> random \<Rightarrow> (Particle \<times> Vector3) list" where
  "createParticles t 0 r = []"
| "createParticles t (Suc n) r = createParticle t r # createParticles t n (skip 15 r)"

definition createGeometryAndMesh :: "Tornado \<Rightarrow> random \<Rightarrow> Tornado \<times> random" where
  "createGeometryAndMesh t r =
     (let created = createParticles t (particleCount t) r
      in (t\<lparr>particles := map fst created, positions := map snd created\<rparr>,
          skip (15 * particleCount t) r))"

text \<open>The class field initialisers followed by the constructor.\<close>

definition fieldInitializers :: Tornado where
  "fieldInitializers =
     \<lparr>particleCount = 10000, maxHeight = 50, maxRadius = 30, coreRadius = 5.0,
      position = vec3 0 0 80, velocity = vec3 0 0 0, tornadoForceStrength = 1500,
      time = 0, formationTime = 0, formationDuration = 0.01,
      particles = [], positions = []\<rparr>"

definition constructor :: "random \<Rightarrow> Tornado \<times> random" where
  "constructor r =
     createGeometryAndMesh
       (fieldInitializers\<lparr>time := 0, formationTime := 0, formationDuration := 0.01\<rparr>) r"

subsection \<open>update\<close>

datatype error = TypeError

text \<open>The reset of an overflowing particle: three random draws.\<close>

definition recycle :: "Particle \<Rightarrow> random \<Rightarrow> Particle" where
  "recycle p r = p\<lparr>height := 0, angle := r 0 * 2 * pi, phase := r 1 * pi * 2,
                    radialPhase := r 2 * pi * 2\<rparr>"

text \<open>The rest of the loop body, after the reset: the new angle and the position
  written to the geometry.\<close>

definition place :: "Tornado \<Rightarrow> real \<Rightarrow> Particle \<Rightarrow> Particle \<times> Vector3" where
  "place t delta p =
     (let maxRadiusAtHeight = calculateMaxRadius t (height p);
          oscillation = sin (time t * 2 + radialPhase p) * radialOscillation p;
          targetRadius = maxRadiusAtHeight * (targetRadiusFactor p + oscillation * 0.1);
          angularVel = calculateAngularVelocity targetRadius maxRadiusAtHeight (spinSpeed p);
          p' = p\<lparr>angle := angle p + angularVel * delta\<rparr>;
          turbStrength = 0.08;
          turbFreq = 2.5;
          turbulenceX = sin (time t * turbFreq + turbulenceOffset p') * turbStrength;
          turbulenceZ = cos (time t * turbFreq * 1.3 + turbulenceOffset p') * turbStrength;
          chaosStrength = 2.0 * chaosFactor p';
          chaosX = chaosXFactor p' * chaosStrength;
          chaosZ = chaosZFactor p' * chaosStrength;
          chaosY = chaosYFactor p' * chaosStrength * 0.5;
          helixAmp = 0.5;
          helixFreq = 10;
          helixOffset = sin (angle p' * helixFreq + phase p') * helixAmp;
          x = targetRadius * cos (angle p') + turbulenceX + chaosX + vx (position t);
          z = targetRadius * sin (angle p') + turbulenceZ + chaosZ + vz (position t);
          y = height p' + helixOffset + chaosY + vy (position t)
      in (p', vec3 x y z))"

text \<open>The loop body for one particle; \<open>t\<close> is the tornado after its clocks and its
  position have been advanced.\<close>

definition updateParticle ::
  "Tornado \<Rightarrow> real \<Rightarrow> real \<Rightarrow> real \<Rightarrow> Particle \<Rightarrow> random \<Rightarrow> (Particle \<times> Vector3) \<times> random" where
  "updateParticle t delta currentCeiling globalChaosFactor p r =
     (let p1 = p\<lparr>chaosFactor := globalChaosFactor\<rparr>;
          p2 = p1\<lparr>height := height p1 + upwardSpeed p1 * delta\<rparr>
      in if height p2 > maxHeight t \<or> height p2 > currentCeiling
         then (place t delta (recycle p2 r), skip 3 r)
         else (place t delta p2, r))"

fun updateParticles ::
  "Tornado \<Rightarrow> real \<Rightarrow> real \<Rightarrow> real \<Rightarrow> Particle list \<Rightarrow> random \<Rightarrow> (Particle \<times> Vector3) list \<times> random" where
  "updateParticles t delta currentCeiling globalChaosFactor [] r = ([], r)"
| "updateParticles t delta currentCeiling globalChaosFactor (p # ps) r =
     (case updateParticle t delta currentCeiling globalChaosFactor p r of
        (pv, r1) \<Rightarrow>
          (case updateParticles t delta currentCeiling globalChaosFactor ps r1 of
             (pvs, r2) \<Rightarrow> (pv # pvs, r2)))"

text \<open>
  \<open>update\<close>. The loop runs over the indices below \<open>particleCount\<close>; reading
  \<open>particles[i]\<close> past the end of the array gives \<open>undefined\<close>, and the assignment
  to its \<open>chaosFactor\<close> throws. The position array is a typed array of fixed length:
  a write past its end is dropped.
\<close>

definition update :: "Tornado \<Rightarrow> real \<Rightarrow> random \<Rightarrow> error + (Tornado \<times> random)" where
  "update t delta r =
     (let t1 = t\<lparr>time := time t + delta, formationTime := formationTime t + delta,
                 position := addScaledVector (position t) (velocity t) delta\<rparr>;
          progress = min (formationTime t1 / formationDuration t1) 1.0;
          currentCeiling = maxHeight t1 * progress;
          globalChaosFactor = 1 - progress
      in if particleCount t1 \<le> length (particles t1) then
           (case updateParticles t1 delta currentCeiling globalChaosFactor
                   (take (particleCount t1) (particles t1)) r of
              (pvs, r') \<Rightarrow>
                Inr (t1\<lparr>particles := map fst pvs @ drop (particleCount t1) (particles t1),
                         positions := take (length (positions t1))
                                        (map snd pvs @ drop (particleCount t1) (positions t1))\<rparr>,
                     r'))
         else Inl TypeError)"

text \<open>The animation loop calls \<open>update\<close> once per frame with the frame's time delta.\<close>

fun updateFrames :: "Tornado \<Rightarrow> real list \<Rightarrow> random \<Rightarrow> error + (Tornado \<times> random)" where
  "updateFrames t [] r = Inr (t, r)"
| "updateFrames t (delta # deltas) r =
     (case update t delta r of
        Inl e \<Rightarrow> Inl e
      | Inr (t', r') \<Rightarrow> updateFrames t' deltas r')"

subsection \<open>The scenario of the specification\<close>

text \<open>Field center at the origin, \<open>maxRadius = 30\<close>, \<open>forceStrength = 150000\<close>,
  \<open>time = 0\<close>; the other fields are the class defaults.\<close>

definition scenarioTornado :: Tornado where
  "scenarioTornado = fieldInitializers\<lparr>position := vec3 0 0 0, tornadoForceStrength := 150000\<rparr>"

text \<open>A particle one unit below the top of the default tornado, rising 4 units a second.\<close>

definition sampleParticle :: Particle where
  "sampleParticle =
     \<lparr>angle = 0, height = 49, targetRadiusFactor = 0.8, spinSpeed = 3, upwardSpeed = 4,
      phase = 0, turbulenceOffset = 0, radialOscillation = 0.2, radialPhase = 0,
      chaosInitial = 1, chaosFactor = 2.0, chaosXFactor = 0.1, chaosZFactor = 0.1,
      chaosYFactor = 0.1\<rparr>"

section \<open>Scene, physics world and asset loading\<close>

text \<open>
  JavaScript objects have identity: a reference is the number of the object, and the
  mutable objects the program shares (scene-graph nodes, physics bodies, building
  records) live in stores indexed by reference. \<open>nextRef\<close> is the first unused
  reference; every \<open>new\<close> takes it and increments it.
\<close>

type_synonym ref = nat

record Quaternion =
  qx :: real
  qy :: real
  qz :: real
  qw :: real

definition identityQuaternion :: Quaternion where
  "identityQuaternion = \<lparr>qx = 0, qy = 0, qz = 0, qw = 1\<rparr>"

text \<open>A scene-graph node: its transform, its visibility and, for a mesh, the bounding
  box of its geometry.\<close>

record Object3D =
  o_position :: Vector3
  o_quaternion :: Quaternion
  o_scale :: Vector3
  o_visible :: bool
  o_boxMin :: Vector3
  o_boxMax :: Vector3

text \<open>
  A \<open>CANNON.Body\<close>, with what the program uses of it: \<open>mass\<close>, \<open>position\<close>,
  \<open>quaternion\<close>, the accumulators \<open>force\<close> and \<open>torque\<close>, and
  \<open>applyForce (force, relativePoint)\<close>. In cannon-es a body made without a
  \<open>type\<close> option is dynamic exactly when its mass is positive, and \<open>applyForce\<close>
  returns at once on a body that is not dynamic; on a dynamic body it adds the force to
  \<open>force\<close> and the cross product of its second argument with the force to
  \<open>torque\<close>: the second argument is a point relative to the body's center of mass.
  The step of the engine, which turns the accumulators into motion and clears them, is not
  part of the model.
\<close>

record Body =
  b_mass :: real
  b_halfExtents :: Vector3
  b_linearDamping :: real
  b_angularDamping :: real
  b_position :: Vector3
  b_quaternion :: Quaternion
  b_force :: Vector3
  b_torque :: Vector3

definition cross :: "Vector3 \<Rightarrow> Vector3 \<Rightarrow> Vector3" where
  "cross a b = vec3 (vy a * vz b - vz a * vy b) (vz a * vx b - vx a * vz b)
                    (vx a * vy b - vy a * vx b)"

definition applyForce :: "Vector3 \<Rightarrow> Vector3 \<Rightarrow> Body \<Rightarrow> Body" where
  "applyForce f relativePoint b =
     (if b_mass b > 0 then
        b\<lparr>b_force := vadd (b_force b) f,
          b_torque := vadd (b_torque b) (cross relativePoint f)\<rparr>
      else b)"

text \<open>The object \<open>ModelLoader.load\<close> hands to \<open>onLoad\<close>: it has the properties
  \<open>visual\<close>, \<open>physics\<close> and \<open>path\<close>, and no other.\<close>

record ModelData =
  md_visual :: ref
  md_physics :: ref
  md_path :: string

text \<open>Reading the property \<open>body\<close> of that object gives \<open>undefined\<close>.\<close>

definition md_body :: "ModelData \<Rightarrow> ref option" where
  "md_body modelData = None"

text \<open>An entry of \<open>crackedBodies\<close>: the object \<open>{mesh, body}\<close>, itself an object
  with an identity.\<close>

record DebrisPart =
  part_self :: ref
  part_mesh :: ref
  part_body :: ref

text \<open>
  A record of \<open>buildingVisuals\<close>, an entry of \<open>buildings\<close> and a slot. A position
  array \<open>[x, y, z]\<close> is a \<open>Vector3\<close>. Building records are objects the \<open>onLoad\<close>
  closure of \<open>damageBuilding\<close> keeps hold of, so they live in a store and the registry
  maps a building id to a reference.

  A slot object is reached through the registry \<open>slots\<close> and through the \<open>onLoad\<close>
  closures of \<open>placeBuilding\<close> that captured it. \<open>addSlot\<close> on an id that is in use
  puts a new object in the registry; the old one stays with its closures, which write to
  it, but nothing reads those fields again. So the registry holds the slot objects
  themselves, each with the number \<open>slot_self\<close> that tells it from every other slot
  object, and a closure keeps the number and the position of the slot it captured: the two
  things of a slot that never change.
\<close>

record Building =
  visual :: ref
  body :: "ref option"
  btype :: string
  slotId :: string
  intact :: string
  cracked :: string
  damaged :: bool
  crackedBodies :: "DebrisPart list"
  originalPosition :: Vector3

record BuildingPaths =
  bp_intact :: string
  bp_cracked :: string
  bp_debrisMass :: real

record Slot =
  slot_self :: nat
  slot_position :: Vector3
  slot_size :: real
  occupied :: bool
  slot_buildingType :: "string option"
  slot_buildingId :: "string option"

record SlotVisual =
  sv_visual :: ref
  sv_body :: "ref option"

text \<open>
  The two \<open>onLoad\<close> closures of the program with the variables they capture, and the
  two \<open>catch\<close> handlers: \<open>placeBuilding\<close> ignores a rejected load,
  \<open>damageBuilding\<close> passes the error to \<open>console.error\<close>. The first argument of
  \<open>PlaceOnLoad\<close> is the captured \<open>slot\<close>: the number and the position of a slot
  object, or nothing when \<open>slots[slotId]\<close> was not a slot object.
\<close>

datatype callback =
    NoOnLoad
  | PlaceOnLoad "(nat \<times> Vector3) option" string string string BuildingPaths
  | DamageOnLoad ref Vector3 Quaternion real

datatype handler = CatchIgnore | CatchConsoleError

record Request =
  req_path :: string
  req_mass :: real
  req_position :: Vector3
  req_scale :: real
  req_friction :: real
  req_restitution :: real
  req_onLoad :: callback
  req_catch :: handler

text \<open>What the GLTF loader delivers for a file: the size of the model's bounding box
  and the meshes a traversal of the model finds, each with its local state.\<close>

record Gltf =
  g_size :: Vector3
  g_meshes :: "Object3D list"

text \<open>
  The matrix algebra of three.js that the destruction code calls is a parameter:
  \<open>matrixWorldDecompose root child\<close> is the position, orientation and scale
  \<open>child.matrixWorld.decompose\<close> yields once the root's world matrix is up to date,
  \<open>applyQuaternion v q\<close> is the vector \<open>v\<close> rotated by \<open>q\<close>.
\<close>

record Three =
  matrixWorldDecompose :: "Object3D \<Rightarrow> Object3D \<Rightarrow> Vector3 \<times> Quaternion \<times> Vector3"
  applyQuaternion :: "Vector3 \<Rightarrow> Quaternion \<Rightarrow> Vector3"

text \<open>
  The state of the program: the stores, the children of the scene, the body list of the
  physics world, the models \<open>ModelLoader\<close> has loaded, the loads that have not yet
  completed, the diagnostics written with \<open>console.error\<close>, and the registries of
  \<open>BuildingSlots\<close>. \<open>buildingVisuals\<close> is an association list in insertion order,
  the order in which \<open>Object.entries\<close> lists its string keys. \<open>nextSlot\<close> is the
  number of the next slot object. \<open>protoDamaged\<close> lists the members of
  \<open>Object.prototype\<close> on which the program has set the property \<open>damaged\<close> (see
  \<open>damageBuilding\<close>).
\<close>

record World =
  nextRef :: ref
  nextSlot :: nat
  objects :: "ref \<Rightarrow> Object3D"
  bodies :: "ref \<Rightarrow> Body"
  buildingObjects :: "ref \<Rightarrow> Building"
  loadedMeshes :: "ref \<Rightarrow> ref list"
  scene :: "ref list"
  physicsWorld :: "ref list"
  loadedModels :: "ModelData list"
  pending :: "Request list"
  console :: "string list"
  slots :: "string \<rightharpoonup> Slot"
  buildings :: "string \<rightharpoonup> BuildingPaths"
  slotVisuals :: "string \<rightharpoonup> SlotVisual"
  buildingVisuals :: "(string \<times> ref) list"
  tornado :: "Tornado option"
  damageThreshold :: real
  protoDamaged :: "string list"

subsection \<open>Scene and physics world\<close>

text \<open>\<open>scene.add\<close> detaches the node from its parent and appends it to the scene's
  children; \<open>scene.remove\<close> takes it out when it is a child.\<close>

definition sceneAdd :: "ref \<Rightarrow> World \<Rightarrow> World" where
  "sceneAdd r w = w\<lparr>scene := removeAll r (scene w) @ [r]\<rparr>"

definition sceneRemove :: "ref \<Rightarrow> World \<Rightarrow> World" where
  "sceneRemove r w = w\<lparr>scene := removeAll r (scene w)\<rparr>"

text \<open>The world mutators of the physics engine, on its list of bodies: \<open>addBody\<close>
  appends a body that is not yet in the list; \<open>removeBody\<close> looks its argument up
  by identity, takes it out when it is found and leaves the list alone otherwise.\<close>

definition addBody :: "ref \<Rightarrow> World \<Rightarrow> World" where
  "addBody r w = (if r \<in> set (physicsWorld w) then w
                  else w\<lparr>physicsWorld := physicsWorld w @ [r]\<rparr>)"

definition removeBody :: "ref \<Rightarrow> World \<Rightarrow> World" where
  "removeBody r w = w\<lparr>physicsWorld := remove1 r (physicsWorld w)\<rparr>"

definition newRef :: "World \<Rightarrow> ref \<times> World" where
  "newRef w = (nextRef w, w\<lparr>nextRef := Suc (nextRef w)\<rparr>)"

subsection \<open>ModelLoader\<close>

text \<open>\<open>load\<close> starts the asynchronous load and returns: the request waits in
  \<open>pending\<close> until the loader calls back.\<close>

definition load :: "Request \<Rightarrow> World \<Rightarrow> World" where
  "load req w = w\<lparr>pending := pending w @ [req]\<rparr>"

definition createPhysicsBody :: "Object3D \<Rightarrow> Vector3 \<Rightarrow> real \<Rightarrow> Body" where
  "createPhysicsBody model bboxSize mass =
     \<lparr>b_mass = mass,
      b_halfExtents = vec3 (vx bboxSize / 2) (vy bboxSize / 2) (vz bboxSize / 2),
      b_linearDamping = 0.02,
      b_angularDamping = 0.3,
      b_position = vec3 (vx (o_position model)) (vy (o_position model)) (vz (o_position model)),
      b_quaternion = identityQuaternion,
      b_force = zero3,
      b_torque = zero3\<rparr>"

text \<open>Allocation of the nodes of a loaded model: the model itself, then its meshes.\<close>

fun allocMeshes :: "Object3D list \<Rightarrow> World \<Rightarrow> ref list \<times> World" where
  "allocMeshes [] w = ([], w)"
| "allocMeshes (m # ms) w =
     (case newRef w of (r, w1) \<Rightarrow>
        (case allocMeshes ms (w1\<lparr>objects := (objects w1)(r := m)\<rparr>) of
           (rs, w2) \<Rightarrow> (r # rs, w2)))"

text \<open>The success callback of \<open>load\<close>, up to the call of \<open>onLoad\<close>.\<close>

definition loaded :: "Request \<Rightarrow> Gltf \<Rightarrow> World \<Rightarrow> ModelData \<times> World" where
  "loaded req gltf w =
     (case newRef w of (model, w1) \<Rightarrow>
        (case allocMeshes (g_meshes gltf) w1 of (meshes, w2) \<Rightarrow>
           (let node = \<lparr>o_position = req_position req, o_quaternion = identityQuaternion,
                        o_scale = vec3 (req_scale req) (req_scale req) (req_scale req),
                        o_visible = True, o_boxMin = zero3, o_boxMax = zero3\<rparr>;
                w3 = w2\<lparr>objects := (objects w2)(model := node),
                        loadedMeshes := (loadedMeshes w2)(model := meshes)\<rparr>;
                w4 = sceneAdd model w3
            in (case newRef w4 of (physicsBody, w5) \<Rightarrow>
                  (let w6 = w5\<lparr>bodies := (bodies w5)
                                   (physicsBody := createPhysicsBody node (g_size gltf) (req_mass req))\<rparr>;
                       w7 = addBody physicsBody w6;
                       modelData = \<lparr>md_visual = model, md_physics = physicsBody,
                                    md_path = req_path req\<rparr>
                   in (modelData, w7\<lparr>loadedModels := loadedModels w7 @ [modelData]\<rparr>))))))"



section \<open>BuildingSlots\<close>

subsection \<open>The registries\<close>

text \<open>
  \<open>slots\<close>, \<open>buildings\<close>, \<open>slotVisuals\<close> and \<open>buildingVisuals\<close> are plain
  objects (\<open>{}\<close>) indexed by strings. \<open>registry[key]\<close> gives the own property
  \<open>key\<close> when there is one, and otherwise what the object inherits under that name.
  The result of such a lookup is one of three: a record of the registry; a value that is
  no record of the registry but whose properties can be read, all of those the program
  reads being \<open>undefined\<close> (a function of \<open>Object.prototype\<close>, say); or
  \<open>undefined\<close>, of which no property can be read.
\<close>

datatype 'a property = Own 'a | Inherited | Undefined

definition ownProperty :: "'a property \<Rightarrow> 'a option" where
  "ownProperty found = (case found of Own v \<Rightarrow> Some v | Inherited \<Rightarrow> None | Undefined \<Rightarrow> None)"

text \<open>The names of the members of \<open>Object.prototype\<close> in ECMAScript.\<close>

definition objectPrototypeMembers :: "string list" where
  "objectPrototypeMembers =
     [''constructor'', ''__defineGetter__'', ''__defineSetter__'', ''hasOwnProperty'',
      ''__lookupGetter__'', ''__lookupSetter__'', ''isPrototypeOf'', ''propertyIsEnumerable'',
      ''toString'', ''valueOf'', ''__proto__'', ''toLocaleString'']"

text \<open>
  The program adds one member itself. \<open>damageBuilding\<close> sets \<open>damaged = true\<close> on
  the value it finds under the building id; under the id \<open>__proto__\<close> that value is
  \<open>Object.prototype\<close>, and from then on every object inherits the property
  \<open>damaged\<close>, with the value \<open>true\<close>.
\<close>

definition prototypeMembers :: "World \<Rightarrow> string list" where
  "prototypeMembers w =
     objectPrototypeMembers @ (if ''__proto__'' \<in> set (protoDamaged w) then [''damaged''] else [])"

text \<open>What reading \<open>damaged\<close> of the inherited member \<open>key\<close> gives.\<close>

definition inheritedDamaged :: "World \<Rightarrow> string \<Rightarrow> bool" where
  "inheritedDamaged w key = (key \<in> set (protoDamaged w) \<or> ''__proto__'' \<in> set (protoDamaged w))"

text \<open>
  The assignment \<open>registry[key] = record\<close> creates the own property \<open>key\<close>, with one
  exception: under the key \<open>__proto__\<close> it makes the record the prototype of the
  registry. Reading \<open>registry[''__proto__'']\<close> then gives that record, which is why the
  registries below keep it under that key like any other; and every own property of that
  record is now found in the registry under its name, before the members of
  \<open>Object.prototype\<close>. \<open>properties record key\<close> tells whether the record has the own
  property \<open>key\<close> and, if it has, whether its value can stand for a record of the
  registry (see \<open>slotFields\<close> and \<open>buildingFields\<close>).
\<close>

definition getProperty ::
  "World \<Rightarrow> (string \<rightharpoonup> 'a) \<Rightarrow> ('a \<Rightarrow> string \<rightharpoonup> bool) \<Rightarrow> string \<Rightarrow> 'a property" where
  "getProperty w registry properties key =
     (case registry key of
        Some v \<Rightarrow> Own v
      | None \<Rightarrow>
          (case Option.bind (registry ''__proto__'') (\<lambda>prototype. properties prototype key) of
             Some usable \<Rightarrow> if usable then Inherited else Undefined
           | None \<Rightarrow> if key \<in> set (prototypeMembers w) then Inherited else Undefined))"

text \<open>
  The own properties of a slot object. The program reads \<open>occupied\<close> of what
  \<open>slots[slotId]\<close> gives: that throws on \<open>null\<close> and gives \<open>undefined\<close> on
  any other value. \<open>buildingType\<close> and \<open>buildingId\<close> are \<open>null\<close> or a string.
\<close>

definition slotFields :: "Slot \<Rightarrow> string \<rightharpoonup> bool" where
  "slotFields slot key =
     (if key = ''position'' \<or> key = ''size'' \<or> key = ''occupied'' then Some True
      else if key = ''buildingType'' then Some (slot_buildingType slot \<noteq> None)
      else if key = ''buildingId'' then Some (slot_buildingId slot \<noteq> None)
      else None)"

text \<open>
  The own properties of an entry of \<open>buildings\<close>. The program tests what
  \<open>buildings[buildingType]\<close> gives for truth: the empty string and the number zero
  are false.
\<close>

definition buildingFields :: "BuildingPaths \<Rightarrow> string \<rightharpoonup> bool" where
  "buildingFields paths key =
     (if key = ''intact'' then Some (bp_intact paths \<noteq> [])
      else if key = ''cracked'' then Some (bp_cracked paths \<noteq> [])
      else if key = ''debrisMass'' then Some (bp_debrisMass paths \<noteq> 0)
      else None)"

text \<open>
  The ids of \<open>buildingVisuals\<close> are made by \<open>placeBuilding\<close> and end in the digits
  of \<open>Date.now ()\<close>: none is \<open>__proto__\<close>, and the prototype of this registry is
  always \<open>Object.prototype\<close>.
\<close>

definition buildingVisualsProperty :: "World \<Rightarrow> string \<Rightarrow> ref property" where
  "buildingVisualsProperty w buildingId =
     (case map_of (buildingVisuals w) buildingId of
        Some b \<Rightarrow> Own b
      | None \<Rightarrow> if buildingId \<in> set (prototypeMembers w) then Inherited else Undefined)"

subsection \<open>Registration\<close>

text \<open>\<open>a || d\<close> on a number: \<open>d\<close> when \<open>a\<close> is missing or zero. On a
  string, as in \<open>options.buildingType || null\<close>, the empty string is replaced as
  well.\<close>

definition orElse :: "real option \<Rightarrow> real \<Rightarrow> real" where
  "orElse a d = (case a of None \<Rightarrow> d | Some v \<Rightarrow> if v = 0 then d else v)"

definition addBuilding :: "string \<Rightarrow> string \<Rightarrow> string \<Rightarrow> real option \<Rightarrow> World \<Rightarrow> World" where
  "addBuilding buildingType intactPath crackedPath debrisMassOption w =
     w\<lparr>buildings := (buildings w)(buildingType \<mapsto>
          \<lparr>bp_intact = intactPath, bp_cracked = crackedPath,
           bp_debrisMass = orElse debrisMassOption 0.5\<rparr>)\<rparr>"

definition setTornado :: "Tornado \<Rightarrow> World \<Rightarrow> World" where
  "setTornado t w = w\<lparr>tornado := Some t\<rparr>"

definition addSlot :: "string \<Rightarrow> Vector3 \<Rightarrow> real option \<Rightarrow> string option \<Rightarrow> World \<Rightarrow> World" where
  "addSlot sid pos sizeOption buildingTypeOption w =
     (let size' = orElse sizeOption 1;
          slotSize = 5 * size'
      in (case newRef w of (v, w1) \<Rightarrow>
            (let node = \<lparr>o_position = pos, o_quaternion = identityQuaternion,
                         o_scale = vec3 1 1 1, o_visible = True,
                         o_boxMin = vec3 (- slotSize / 2) (- slotSize / 2) (- slotSize / 2),
                         o_boxMax = vec3 (slotSize / 2) (slotSize / 2) (slotSize / 2)\<rparr>;
                 w2 = sceneAdd v (w1\<lparr>objects := (objects w1)(v := node)\<rparr>)
             in w2\<lparr>nextSlot := Suc (nextSlot w2),
                    slots := (slots w2)(sid \<mapsto>
                       \<lparr>slot_self = nextSlot w2, slot_position = pos, slot_size = size',
                        occupied = False,
                        slot_buildingType = (if buildingTypeOption = Some [] then None
                                             else buildingTypeOption),
                        slot_buildingId = None\<rparr>),
                    slotVisuals := (slotVisuals w2)(sid \<mapsto>
                       \<lparr>sv_visual = v, sv_body = None\<rparr>)\<rparr>)))"

subsection \<open>demolishBuilding\<close>

text \<open>
  Reading a property of \<open>undefined\<close> throws a \<open>TypeError\<close>. A method that throws
  gives the error and the state it leaves behind; one that returns gives the state.
\<close>

type_synonym outcome = "(error \<times> World) + World"

text \<open>
  \<open>demolishBuilding\<close> reads \<open>slot.occupied\<close> first: that throws when
  \<open>slots[slotId]\<close> is \<open>undefined\<close>, and gives \<open>undefined\<close>, so that the method
  returns, when it is an inherited value. \<open>scene.remove\<close> of a value that is no child
  of the scene does nothing. The loop over \<open>crackedBodies\<close> passes each entry of the
  list, the object \<open>{mesh, body}\<close>, to \<open>removeBody\<close>. The last statement reads
  \<open>slotVisuals[slotId].visual.visible\<close>, which throws unless \<open>slotVisuals[slotId]\<close>
  is a record of that registry.
\<close>

definition demolishBuilding :: "string \<Rightarrow> World \<Rightarrow> outcome" where
  "demolishBuilding sid w =
     (case getProperty w (slots w) slotFields sid of
        Undefined \<Rightarrow> Inl (TypeError, w)
      | Inherited \<Rightarrow> Inr w
      | Own slot \<Rightarrow>
          if \<not> occupied slot \<or> slot_buildingId slot = None \<or> slot_buildingId slot = Some []
          then Inr w
          else
            (let buildingId = the (slot_buildingId slot);
                 w1 = (case buildingVisualsProperty w buildingId of
                         Undefined \<Rightarrow> w
                       | Inherited \<Rightarrow> w
                       | Own b \<Rightarrow>
                           (let building = buildingObjects w b;
                                wa = sceneRemove (visual building) w;
                                wb = (case body building of
                                        Some intactBody \<Rightarrow> removeBody intactBody wa
                                      | None \<Rightarrow> wa);
                                wc = fold (\<lambda>entry. removeBody (part_self entry))
                                          (crackedBodies building) wb
                            in wc\<lparr>buildingVisuals :=
                                     AList.delete buildingId (buildingVisuals wc)\<rparr>));
                 w2 = w1\<lparr>slots := (slots w1)(sid \<mapsto>
                            slot\<lparr>occupied := False, slot_buildingType := None,
                                 slot_buildingId := None\<rparr>)\<rparr>
             in (case slotVisuals w2 sid of
                   None \<Rightarrow> Inl (TypeError, w2)
                 | Some sv \<Rightarrow>
                     Inr (w2\<lparr>objects := (objects w2)
                            (sv_visual sv := (objects w2 (sv_visual sv))\<lparr>o_visible := True\<rparr>)\<rparr>))))"

subsection \<open>placeBuilding\<close>

text \<open>Decimal digits of \<open>Date.now ()\<close>, for the template string of the building id.\<close>

function toString :: "nat \<Rightarrow> string" where
  "toString n = (if n < 10 then [char_of (48 + n)]
                 else toString (n div 10) @ [char_of (48 + n mod 10)])"
  by pat_completeness auto
termination
  by (relation "measure id") auto

declare toString.simps [simp del]

text \<open>
  \<open>placeBuilding\<close> reads \<open>slot.occupied\<close> first, like \<open>demolishBuilding\<close>; on an
  inherited value it reads \<open>undefined\<close> and goes on. It returns when
  \<open>buildings[buildingType]\<close> is false. Of an inherited value the property
  \<open>intact\<close> is \<open>undefined\<close>: the GLTF loader throws on a path that is no string
  before it requests anything, inside the executor of the promise \<open>load\<close> returns, so
  the promise is rejected and the empty \<open>catch\<close> handler of \<open>placeBuilding\<close> runs:
  nothing is left waiting. The option \<open>position\<close> is \<open>slot.position\<close>; when that is
  \<open>undefined\<close>, \<open>load\<close> takes its default \<open>[0, 0, 0]\<close>.
\<close>

definition placeBuilding :: "string \<Rightarrow> string \<Rightarrow> nat \<Rightarrow> World \<Rightarrow> outcome" where
  "placeBuilding sid buildingType now w =
     (let found = getProperty w (slots w) slotFields sid;
          slot = ownProperty found
      in if found = Undefined then Inl (TypeError, w)
         else
          (case (if map_option occupied slot = Some True then demolishBuilding sid w
                 else Inr w) of
             Inl e \<Rightarrow> Inl e
           | Inr w1 \<Rightarrow>
               (case getProperty w1 (buildings w1) buildingFields buildingType of
                  Undefined \<Rightarrow> Inr w1
                | Inherited \<Rightarrow> Inr w1
                | Own buildingPaths \<Rightarrow>
                    (let buildingId = sid @ ''_'' @ buildingType @ ''_'' @ toString now
                     in Inr (load \<lparr>req_path = bp_intact buildingPaths,
                                   req_mass = 0,
                                   req_position = (case slot of
                                                     Some s \<Rightarrow> slot_position s
                                                   | None \<Rightarrow> vec3 0 0 0),
                                   req_scale = 1,
                                   req_friction = 0.5,
                                   req_restitution = 0.2,
                                   req_onLoad =
                                     PlaceOnLoad (map_option (\<lambda>s. (slot_self s, slot_position s)) slot)
                                       sid buildingType buildingId buildingPaths,
                                   req_catch = CatchIgnore\<rparr> w1)))))"

text \<open>
  The \<open>onLoad\<close> closure of \<open>placeBuilding\<close>. The building record is a new object;
  its \<open>body\<close> is what the property \<open>body\<close> of the loaded model data reads, and
  its \<open>originalPosition\<close> is \<open>slot.position.slice ()\<close>, which throws, before the
  record is stored, when the captured \<open>slot\<close> is no slot object. The closure then writes
  to the captured slot object: that is the slot the registry holds under \<open>slotId\<close>
  unless \<open>addSlot\<close> has put another object there since.
\<close>

definition placeOnLoad ::
  "(nat \<times> Vector3) option \<Rightarrow> string \<Rightarrow> string \<Rightarrow> string \<Rightarrow> BuildingPaths \<Rightarrow> ModelData \<Rightarrow> World
     \<Rightarrow> outcome" where
  "placeOnLoad slot sid buildingType buildingId buildingPaths modelData w =
     (case slot of
        None \<Rightarrow> Inl (TypeError, w)
      | Some (self, slotPosition) \<Rightarrow>
          (case newRef w of (b, w1) \<Rightarrow>
             (let building = \<lparr>visual = md_visual modelData,
                              body = md_body modelData,
                              btype = buildingType,
                              slotId = sid,
                              intact = bp_intact buildingPaths,
                              cracked = bp_cracked buildingPaths,
                              damaged = False,
                              crackedBodies = [],
                              originalPosition = slotPosition\<rparr>;
                  w2 = w1\<lparr>buildingObjects := (buildingObjects w1)(b := building),
                          buildingVisuals := AList.update buildingId b (buildingVisuals w1)\<rparr>;
                  w3 = (case slots w2 sid of
                          None \<Rightarrow> w2
                        | Some current \<Rightarrow>
                            if slot_self current = self then
                              w2\<lparr>slots := (slots w2)(sid \<mapsto>
                                    current\<lparr>occupied := True,
                                            slot_buildingType := Some buildingType,
                                            slot_buildingId := Some buildingId\<rparr>)\<rparr>
                            else w2)
              in (case slotVisuals w3 sid of
                    None \<Rightarrow> Inl (TypeError, w3)
                  | Some sv \<Rightarrow>
                      Inr (w3\<lparr>objects := (objects w3)
                             (sv_visual sv := (objects w3 (sv_visual sv))\<lparr>o_visible := False\<rparr>)\<rparr>)))))"

subsection \<open>damageBuilding\<close>

text \<open>
  \<open>damageBuilding\<close> returns when \<open>buildingVisuals[buildingId]\<close> is false or has
  \<open>damaged\<close> set. It then sets \<open>damaged = true\<close> on what it found, and reads
  \<open>building.visual.position\<close>: on an inherited value \<open>visual\<close> is \<open>undefined\<close> and
  the read throws, after the flag has been set on a member of \<open>Object.prototype\<close>.
  \<open>damageBuilding\<close> is the state the call leaves behind, \<open>damageBuildingThrows\<close>
  tells whether it leaves by that \<open>TypeError\<close>.
\<close>

definition damageBuilding :: "string \<Rightarrow> World \<Rightarrow> World" where
  "damageBuilding buildingId w =
     (case buildingVisualsProperty w buildingId of
        Undefined \<Rightarrow> w
      | Inherited \<Rightarrow>
          if inheritedDamaged w buildingId then w
          else w\<lparr>protoDamaged := protoDamaged w @ [buildingId]\<rparr>
      | Own b \<Rightarrow>
          (let building = buildingObjects w b
           in if damaged building then w
              else
                (let w1 = w\<lparr>buildingObjects :=
                             (buildingObjects w)(b := building\<lparr>damaged := True\<rparr>)\<rparr>;
                     pos = o_position (objects w1 (visual building));
                     quaternion = o_quaternion (objects w1 (visual building));
                     debrisMass = orElse (map_option bp_debrisMass (buildings w1 (btype building))) 10;
                     w2 = sceneRemove (visual building) w1;
                     w3 = (case body building of
                             Some intactBody \<Rightarrow> removeBody intactBody w2
                           | None \<Rightarrow> w2)
                 in load \<lparr>req_path = cracked building,
                          req_mass = 0,
                          req_position = vec3 (vx pos) (vy pos) (vz pos),
                          req_scale = 1,
                          req_friction = 0.3,
                          req_restitution = 0.3,
                          req_onLoad = DamageOnLoad b pos quaternion debrisMass,
                          req_catch = CatchConsoleError\<rparr> w3)))"

definition damageBuildingThrows :: "string \<Rightarrow> World \<Rightarrow> bool" where
  "damageBuildingThrows buildingId w =
     (buildingVisualsProperty w buildingId = Inherited \<and> \<not> inheritedDamaged w buildingId)"

text \<open>\<open>Box3.getSize\<close> and \<open>Box3.getCenter\<close>: zero for an empty box.\<close>

definition boxIsEmpty :: "Object3D \<Rightarrow> bool" where
  "boxIsEmpty m = (vx (o_boxMax m) < vx (o_boxMin m) \<or> vy (o_boxMax m) < vy (o_boxMin m)
                   \<or> vz (o_boxMax m) < vz (o_boxMin m))"

definition getSize :: "Object3D \<Rightarrow> Vector3" where
  "getSize m = (if boxIsEmpty m then zero3 else sub (o_boxMax m) (o_boxMin m))"

definition getCenter :: "Object3D \<Rightarrow> Vector3" where
  "getCenter m = (if boxIsEmpty m then zero3
                  else multiplyScalar (vadd (o_boxMin m) (o_boxMax m)) 0.5)"

text \<open>One round of the loop over \<open>debrisParts\<close>: the pivot correction of the piece,
  its body, and the entry pushed onto \<open>crackedBodies\<close> of the building \<open>b\<close>.
  \<open>matrixWorld\<close> holds the world matrices as \<open>updateMatrixWorld\<close> left them before
  the loop.\<close>

definition createDebris ::
  "Three \<Rightarrow> ref \<Rightarrow> real \<Rightarrow> (ref \<Rightarrow> Vector3 \<times> Quaternion \<times> Vector3) \<Rightarrow> ref \<Rightarrow> World \<Rightarrow> World" where
  "createDebris three b debrisMass matrixWorld child w =
     (let c = objects w child;
          worldPos = fst (matrixWorld child);
          worldQuat = fst (snd (matrixWorld child));
          worldScale = snd (snd (matrixWorld child));
          size' = getSize c;
          center = getCenter c;
          centerOffset = applyQuaternion three center worldQuat;
          realCenterPos = vadd worldPos centerOffset;
          w1 = sceneAdd child w;
          c1 = c\<lparr>o_boxMin := sub (o_boxMin c) center,
                 o_boxMax := sub (o_boxMax c) center,
                 o_position := realCenterPos\<lparr>vy := vy realCenterPos + 0.2\<rparr>,
                 o_quaternion := worldQuat,
                 o_scale := worldScale\<rparr>;
          w2 = w1\<lparr>objects := (objects w1)(child := c1)\<rparr>;
          physicsSize = multiplyScalar size' 0.85
      in (case newRef w2 of (pieceBody, w3) \<Rightarrow>
            (let w4 = w3\<lparr>bodies := (bodies w3)(pieceBody :=
                          \<lparr>b_mass = debrisMass,
                           b_halfExtents = vec3 (vx physicsSize / 2) (vy physicsSize / 2)
                                                (vz physicsSize / 2),
                           b_linearDamping = 0.05,
                           b_angularDamping = 0.05,
                           b_position = o_position c1,
                           b_quaternion = o_quaternion c1,
                           b_force = zero3,
                           b_torque = zero3\<rparr>)\<rparr>;
                 w5 = addBody pieceBody w4
             in (case newRef w5 of (entry, w6) \<Rightarrow>
                   (let building = buildingObjects w6 b
                    in w6\<lparr>buildingObjects := (buildingObjects w6)(b :=
                             building\<lparr>crackedBodies := crackedBodies building @
                                [\<lparr>part_self = entry, part_mesh = child, part_body = pieceBody\<rparr>]\<rparr>)\<rparr>)))))"

text \<open>The \<open>onLoad\<close> closure of \<open>damageBuilding\<close>; it holds the building record it was
  created for.\<close>

definition damageOnLoad ::
  "Three \<Rightarrow> ref \<Rightarrow> Vector3 \<Rightarrow> Quaternion \<Rightarrow> real \<Rightarrow> ModelData \<Rightarrow> World \<Rightarrow> World" where
  "damageOnLoad three b pos quaternion debrisMass crackedData w =
     (let building = buildingObjects w b;
          v = md_visual crackedData;
          w1 = w\<lparr>buildingObjects := (buildingObjects w)(b := building\<lparr>visual := v\<rparr>),
                 objects := (objects w)(v := (objects w v)\<lparr>o_position := pos,
                                                           o_quaternion := quaternion\<rparr>)\<rparr>;
          w2 = (case md_body crackedData of
                  Some loadedBody \<Rightarrow> removeBody loadedBody w1
                | None \<Rightarrow> w1);
          w3 = w2\<lparr>buildingObjects := (buildingObjects w2)
                    (b := (buildingObjects w2 b)\<lparr>crackedBodies := []\<rparr>)\<rparr>;
          matrixWorld = (\<lambda>child. matrixWorldDecompose three (objects w3 v) (objects w3 child));
          debrisParts = loadedMeshes w3 v
      in fold (createDebris three b debrisMass matrixWorld) debrisParts w3)"

subsection \<open>Completion of a load\<close>

definition runOnLoad :: "Three \<Rightarrow> callback \<Rightarrow> ModelData \<Rightarrow> World \<Rightarrow> outcome" where
  "runOnLoad three cb modelData w =
     (case cb of
        NoOnLoad \<Rightarrow> Inr w
      | PlaceOnLoad slot sid buildingType buildingId buildingPaths \<Rightarrow>
          placeOnLoad slot sid buildingType buildingId buildingPaths modelData w
      | DamageOnLoad b pos quaternion debrisMass \<Rightarrow>
          Inr (damageOnLoad three b pos quaternion debrisMass modelData w))"

text \<open>The loader delivers the file of the \<open>i\<close>-th waiting request.\<close>

definition loadSucceeds :: "Three \<Rightarrow> nat \<Rightarrow> Gltf \<Rightarrow> World \<Rightarrow> outcome" where
  "loadSucceeds three i gltf w =
     (if i < length (pending w) then
        (let req = pending w ! i;
             w1 = w\<lparr>pending := take i (pending w) @ drop (Suc i) (pending w)\<rparr>
         in (case loaded req gltf w1 of
               (modelData, w2) \<Rightarrow> runOnLoad three (req_onLoad req) modelData w2))
      else Inr w)"

text \<open>The loader reports an error for the \<open>i\<close>-th waiting request: the promise is
  rejected and the request's \<open>catch\<close> handler runs.\<close>

definition loadFails :: "nat \<Rightarrow> string \<Rightarrow> World \<Rightarrow> World" where
  "loadFails i err w =
     (if i < length (pending w) then
        (let req = pending w ! i;
             w1 = w\<lparr>pending := take i (pending w) @ drop (Suc i) (pending w)\<rparr>
         in (case req_catch req of
               CatchIgnore \<Rightarrow> w1
             | CatchConsoleError \<Rightarrow> w1\<lparr>console := console w1 @ [err]\<rparr>))
      else w)"

subsection \<open>applyTornadoForces\<close>

text \<open>Step 1 of the loop body: the damage test of one building.\<close>

definition damageScan :: "Tornado \<Rightarrow> string \<Rightarrow> ref \<Rightarrow> World \<Rightarrow> World" where
  "damageScan t realBuildingId b w =
     (let building = buildingObjects w b
      in if \<not> damaged building then
           (let buildingPos = o_position (objects w (visual building));
                tornadoPos = position t;
                dist = distanceTo buildingPos tornadoPos
            in if dist < damageThreshold w then damageBuilding realBuildingId w else w)
         else w)"

text \<open>
  Step 2, for the body of one entry of \<open>crackedBodies\<close>: \<open>applyForce\<close> is called
  with the lift and with the horizontal part of the field force, both times with the
  body's position as the point, and the x and y components of the torque get a random
  kick each; \<open>u1\<close> and \<open>u2\<close> are the two values \<open>Math.random ()\<close> returns.
\<close>

definition applyTornadoToDebris :: "Tornado \<Rightarrow> real \<Rightarrow> real \<Rightarrow> Body \<Rightarrow> Body" where
  "applyTornadoToDebris t u1 u2 bd =
     (let debrisPos = vec3 (vx (b_position bd)) (vy (b_position bd)) (vz (b_position bd));
          tornadoResult = calculateForceOnObject t debrisPos (b_mass bd);
          lift = vec3 0 (vy (force tornadoResult)) 0;
          horizontal = vec3 (vx (force tornadoResult)) 0 (vz (force tornadoResult));
          b1 = applyForce lift (b_position bd) bd;
          b2 = applyForce horizontal (b_position b1) b1;
          b3 = b2\<lparr>b_torque := (b_torque b2)\<lparr>vx := vx (b_torque b2) + (u1 - 0.5) * 10\<rparr>\<rparr>
      in b3\<lparr>b_torque := (b_torque b3)\<lparr>vy := vy (b_torque b3) + (u2 - 0.5) * 10\<rparr>\<rparr>)"

definition moveDebris :: "Tornado \<Rightarrow> DebrisPart \<Rightarrow> World \<times> random \<Rightarrow> World \<times> random" where
  "moveDebris t debris wr =
     (case wr of (w, r) \<Rightarrow>
        (w\<lparr>bodies := (bodies w)
              (part_body debris := applyTornadoToDebris t (r 0) (r 1) (bodies w (part_body debris)))\<rparr>,
         skip 2 r))"

definition scanBuilding :: "Tornado \<Rightarrow> string \<times> ref \<Rightarrow> World \<times> random \<Rightarrow> World \<times> random" where
  "scanBuilding t entry wr =
     (case entry of (realBuildingId, b) \<Rightarrow>
        (case wr of (w, r) \<Rightarrow>
           (let w1 = damageScan t realBuildingId b w;
                building = buildingObjects w1 b
            in if damaged building \<and> length (crackedBodies building) > 0
               then fold (moveDebris t) (crackedBodies building) (w1, r)
               else (w1, r))))"

definition BuildingSlots_applyTornadoForces :: "World \<Rightarrow> random \<Rightarrow> World \<times> random" where
  "BuildingSlots_applyTornadoForces w r =
     (case tornado w of
        None \<Rightarrow> (w, r)
      | Some t \<Rightarrow> fold (scanBuilding t) (buildingVisuals w) (w, r))"

section \<open>A scenario: one slot, one building type\<close>

text \<open>
  Concrete states for the closed theorems below. The state before any registration has
  empty registries; the stores hold blank objects at the references not yet in use.
\<close>

definition blankObject :: Object3D where
  "blankObject =
     \<lparr>o_position = zero3, o_quaternion = identityQuaternion, o_scale = vec3 1 1 1,
      o_visible = True, o_boxMin = zero3, o_boxMax = zero3\<rparr>"

definition blankBody :: Body where
  "blankBody =
     \<lparr>b_mass = 0, b_halfExtents = zero3, b_linearDamping = 0, b_angularDamping = 0,
      b_position = zero3, b_quaternion = identityQuaternion, b_force = zero3,
      b_torque = zero3\<rparr>"

definition blankBuilding :: Building where
  "blankBuilding =
     \<lparr>visual = 0, body = None, btype = [], slotId = [], intact = [], cracked = [],
      damaged = False, crackedBodies = [], originalPosition = zero3\<rparr>"

definition initialWorld :: World where
  "initialWorld =
     \<lparr>nextRef = 0, nextSlot = 0, objects = (\<lambda>r. blankObject), bodies = (\<lambda>r. blankBody),
      buildingObjects = (\<lambda>r. blankBuilding), loadedMeshes = (\<lambda>r. []), scene = [],
      physicsWorld = [], loadedModels = [], pending = [], console = [], slots = Map.empty,
      buildings = Map.empty, slotVisuals = Map.empty, buildingVisuals = [], tornado = None,
      damageThreshold = 30, protoDamaged = []\<rparr>"

text \<open>An instance of the matrix algebra for models that are not rotated: the world
  position of a child is its own position moved by the root's.\<close>

definition three0 :: Three where
  "three0 =
     \<lparr>matrixWorldDecompose =
        (\<lambda>root child. (vadd (o_position root) (o_position child), o_quaternion root,
                        o_scale child)),
      applyQuaternion = (\<lambda>v q. v)\<rparr>"

text \<open>The two files: an intact model without meshes of interest, and a broken model
  of one piece whose geometry is centered one unit above its pivot.\<close>

definition piece :: Object3D where
  "piece =
     \<lparr>o_position = vec3 0 0 0, o_quaternion = identityQuaternion, o_scale = vec3 1 1 1,
      o_visible = True, o_boxMin = vec3 (- 1) 0 (- 1), o_boxMax = vec3 1 2 1\<rparr>"

definition intactGltf :: Gltf where
  "intactGltf = \<lparr>g_size = vec3 2 2 2, g_meshes = []\<rparr>"

definition crackedGltf :: Gltf where
  "crackedGltf = \<lparr>g_size = vec3 2 2 2, g_meshes = [piece]\<rparr>"

text \<open>The scenario's tornado lifted 40 units above the slot.\<close>

definition highTornado :: Tornado where
  "highTornado = scenarioTornado\<lparr>position := vec3 15 40 0\<rparr>"

text \<open>The planar distance of the specification's damage test: the distance of the two
  points with the y coordinates ignored.\<close>

definition spec_planarDistance :: "Vector3 \<Rightarrow> Vector3 \<Rightarrow> real" where
  "spec_planarDistance a b =
     sqrt ((vx a - vx b) * (vx a - vx b) + (vz a - vz b) * (vz a - vz b))"

text \<open>Records that occur in several of the states.\<close>

definition slotCube :: "bool \<Rightarrow> Object3D" where
  "slotCube shown =
     \<lparr>o_position = vec3 15 0 0, o_quaternion = identityQuaternion, o_scale = vec3 1 1 1,
      o_visible = shown, o_boxMin = vec3 (- (5 / 2)) (- (5 / 2)) (- (5 / 2)),
      o_boxMax = vec3 (5 / 2) (5 / 2) (5 / 2)\<rparr>"

definition modelNode :: Object3D where
  "modelNode =
     \<lparr>o_position = vec3 15 0 0, o_quaternion = identityQuaternion, o_scale = vec3 1 1 1,
      o_visible = True, o_boxMin = vec3 0 0 0, o_boxMax = vec3 0 0 0\<rparr>"

definition staticBody :: Body where
  "staticBody =
     \<lparr>b_mass = 0, b_halfExtents = vec3 1 1 1, b_linearDamping = 1 / 50,
      b_angularDamping = 3 / 10, b_position = vec3 15 0 0,
      b_quaternion = identityQuaternion, b_force = vec3 0 0 0, b_torque = vec3 0 0 0\<rparr>"

definition housePaths :: BuildingPaths where
  "housePaths = \<lparr>bp_intact = ''i'', bp_cracked = ''c'', bp_debrisMass = 2\<rparr>"

text \<open>The registry after \<open>setTornado\<close>, \<open>addBuilding\<close> and \<open>addSlot\<close>.\<close>

definition world0 :: World where
  "world0 =
     \<lparr>nextRef = 1,
      nextSlot = 1,
      objects = (\<lambda>r. blankObject) (0 := slotCube True),
      bodies = \<lambda>r. blankBody,
      buildingObjects = \<lambda>r. blankBuilding,
      loadedMeshes = \<lambda>r. [],
      scene = [0],
      physicsWorld = [],
      loadedModels = [],
      pending = [],
      console = [],
      slots = [''s'' \<mapsto> \<lparr>slot_self = 0, slot_position = vec3 15 0 0,
          slot_size = 1,
          occupied = False, slot_buildingType = None, slot_buildingId = None\<rparr>],
      buildings = [''h'' \<mapsto> housePaths],
      slotVisuals = [''s'' \<mapsto> \<lparr>sv_visual = 0, sv_body = None\<rparr>],
      buildingVisuals = [],
      tornado = Some scenarioTornado,
      damageThreshold = 30,
      protoDamaged = []\<rparr>"

text \<open>After \<open>placeBuilding\<close> on the free slot: the load of the intact model waits.\<close>

definition world1 :: World where
  "world1 =
     \<lparr>nextRef = 1,
      nextSlot = 1,
      objects = (\<lambda>r. blankObject) (0 := slotCube True),
      bodies = \<lambda>r. blankBody,
      buildingObjects = \<lambda>r. blankBuilding,
      loadedMeshes = \<lambda>r. [],
      scene = [0],
      physicsWorld = [],
      loadedModels = [],
      pending = [\<lparr>req_path = ''i'', req_mass = 0, req_position = vec3 15 0 0,
          req_scale = 1, req_friction = 1 / 2, req_restitution = 1 / 5,
          req_onLoad = PlaceOnLoad (Some (0, vec3 15 0 0)) ''s'' ''h'' ''s_h_7'' housePaths,
          req_catch = CatchIgnore\<rparr>],
      console = [],
      slots = [''s'' \<mapsto> \<lparr>slot_self = 0, slot_position = vec3 15 0 0,
          slot_size = 1,
          occupied = False, slot_buildingType = None, slot_buildingId = None\<rparr>],
      buildings = [''h'' \<mapsto> housePaths],
      slotVisuals = [''s'' \<mapsto> \<lparr>sv_visual = 0, sv_body = None\<rparr>],
      buildingVisuals = [],
      tornado = Some scenarioTornado,
      damageThreshold = 30,
      protoDamaged = []\<rparr>"

text \<open>After that load: the building stands on the slot.\<close>

definition world2 :: World where
  "world2 =
     \<lparr>nextRef = 4,
      nextSlot = 1,
      objects = (\<lambda>r. blankObject) (1 := modelNode,
        0 := slotCube False),
      bodies = (\<lambda>r. blankBody) (2 := staticBody),
      buildingObjects = (\<lambda>r. blankBuilding) (3 := \<lparr>visual = 1, body = None,
          btype = ''h'', slotId = ''s'', intact = ''i'', cracked = ''c'', damaged = False,
          crackedBodies = [], originalPosition = vec3 15 0 0\<rparr>),
      loadedMeshes = (\<lambda>r. [])(1 := []),
      scene = [0,
        1],
      physicsWorld = [2],
      loadedModels = [\<lparr>md_visual = 1, md_physics = 2, md_path = ''i''\<rparr>],
      pending = [],
      console = [],
      slots = [''s'' \<mapsto> \<lparr>slot_self = 0, slot_position = vec3 15 0 0,
          slot_size = 1,
          occupied = True, slot_buildingType = Some ''h'',
          slot_buildingId = Some ''s_h_7''\<rparr>],
      buildings = [''h'' \<mapsto> housePaths],
      slotVisuals = [''s'' \<mapsto> \<lparr>sv_visual = 0, sv_body = None\<rparr>],
      buildingVisuals = [(''s_h_7'', 3)],
      tornado = Some scenarioTornado,
      damageThreshold = 30,
      protoDamaged = []\<rparr>"

text \<open>After \<open>damageBuilding\<close>: the load of the broken model waits.\<close>

definition world3 :: World where
  "world3 =
     \<lparr>nextRef = 4,
      nextSlot = 1,
      objects = (\<lambda>r. blankObject) (1 := modelNode,
        0 := slotCube False),
      bodies = (\<lambda>r. blankBody) (2 := staticBody),
      buildingObjects = (\<lambda>r. blankBuilding) (3 := \<lparr>visual = 1, body = None,
          btype = ''h'', slotId = ''s'', intact = ''i'', cracked = ''c'', damaged = True,
          crackedBodies = [], originalPosition = vec3 15 0 0\<rparr>),
      loadedMeshes = (\<lambda>r. [])(1 := []),
      scene = [0],
      physicsWorld = [2],
      loadedModels = [\<lparr>md_visual = 1, md_physics = 2, md_path = ''i''\<rparr>],
      pending = [\<lparr>req_path = ''c'', req_mass = 0, req_position = vec3 15 0 0,
          req_scale = 1, req_friction = 3 / 10, req_restitution = 3 / 10,
          req_onLoad = DamageOnLoad (3) (vec3 15 0 0) identityQuaternion 2,
          req_catch = CatchConsoleError\<rparr>],
      console = [],
      slots = [''s'' \<mapsto> \<lparr>slot_self = 0, slot_position = vec3 15 0 0,
          slot_size = 1,
          occupied = True, slot_buildingType = Some ''h'',
          slot_buildingId = Some ''s_h_7''\<rparr>],
      buildings = [''h'' \<mapsto> housePaths],
      slotVisuals = [''s'' \<mapsto> \<lparr>sv_visual = 0, sv_body = None\<rparr>],
      buildingVisuals = [(''s_h_7'', 3)],
      tornado = Some scenarioTornado,
      damageThreshold = 30,
      protoDamaged = []\<rparr>"

text \<open>After the failure of that load.\<close>

definition world3f :: World where
  "world3f =
     \<lparr>nextRef = 4,
      nextSlot = 1,
      objects = (\<lambda>r. blankObject) (1 := modelNode,
        0 := slotCube False),
      bodies = (\<lambda>r. blankBody) (2 := staticBody),
      buildingObjects = (\<lambda>r. blankBuilding) (3 := \<lparr>visual = 1, body = None,
          btype = ''h'', slotId = ''s'', intact = ''i'', cracked = ''c'', damaged = True,
          crackedBodies = [], originalPosition = vec3 15 0 0\<rparr>),
      loadedMeshes = (\<lambda>r. [])(1 := []),
      scene = [0],
      physicsWorld = [2],
      loadedModels = [\<lparr>md_visual = 1, md_physics = 2, md_path = ''i''\<rparr>],
      pending = [],
      console = [''404''],
      slots = [''s'' \<mapsto> \<lparr>slot_self = 0, slot_position = vec3 15 0 0,
          slot_size = 1,
          occupied = True, slot_buildingType = Some ''h'',
          slot_buildingId = Some ''s_h_7''\<rparr>],
      buildings = [''h'' \<mapsto> housePaths],
      slotVisuals = [''s'' \<mapsto> \<lparr>sv_visual = 0, sv_body = None\<rparr>],
      buildingVisuals = [(''s_h_7'', 3)],
      tornado = Some scenarioTornado,
      damageThreshold = 30,
      protoDamaged = []\<rparr>"

text \<open>After the success of that load instead: one fragment.\<close>

definition world4 :: World where
  "world4 =
     \<lparr>nextRef = 9,
      nextSlot = 1,
      objects = (\<lambda>r. blankObject) (1 := modelNode,
        0 := slotCube False,
        4 := modelNode,
        5 := \<lparr>o_position = vec3 15 (6 / 5) 0, o_quaternion = identityQuaternion,
            o_scale = vec3 1 1 1, o_visible = True, o_boxMin = vec3 (- 1) (- 1) (- 1),
            o_boxMax = vec3 1 1 1\<rparr>),
      bodies = (\<lambda>r. blankBody) (2 := staticBody,
        6 := staticBody,
        7 := \<lparr>b_mass = 2, b_halfExtents = vec3 (17 / 20) (17 / 20) (17 / 20),
            b_linearDamping = 1 / 20, b_angularDamping = 1 / 20,
            b_position = vec3 15 (6 / 5) 0, b_quaternion = identityQuaternion,
            b_force = vec3 0 0 0, b_torque = vec3 0 0 0\<rparr>),
      buildingObjects = (\<lambda>r. blankBuilding) (3 := \<lparr>visual = 4, body = None,
          btype = ''h'', slotId = ''s'', intact = ''i'', cracked = ''c'', damaged = True,
          crackedBodies = [\<lparr>part_self = 8, part_mesh = 5, part_body = 7\<rparr>],
          originalPosition = vec3 15 0 0\<rparr>),
      loadedMeshes = (\<lambda>r. []) (1 := [],
        4 := [5]),
      scene = [0,
        4,
        5],
      physicsWorld = [2,
        6,
        7],
      loadedModels = [\<lparr>md_visual = 1, md_physics = 2, md_path = ''i''\<rparr>,
        \<lparr>md_visual = 4, md_physics = 6, md_path = ''c''\<rparr>],
      pending = [],
      console = [],
      slots = [''s'' \<mapsto> \<lparr>slot_self = 0, slot_position = vec3 15 0 0,
          slot_size = 1,
          occupied = True, slot_buildingType = Some ''h'',
          slot_buildingId = Some ''s_h_7''\<rparr>],
      buildings = [''h'' \<mapsto> housePaths],
      slotVisuals = [''s'' \<mapsto> \<lparr>sv_visual = 0, sv_body = None\<rparr>],
      buildingVisuals = [(''s_h_7'', 3)],
      tornado = Some scenarioTornado,
      damageThreshold = 30,
      protoDamaged = []\<rparr>"

text \<open>After \<open>placeBuilding\<close> on the occupied slot.\<close>

definition world5 :: World where
  "world5 =
     \<lparr>nextRef = 9,
      nextSlot = 1,
      objects = (\<lambda>r. blankObject) (1 := modelNode,
        4 := modelNode,
        5 := \<lparr>o_position = vec3 15 (6 / 5) 0, o_quaternion = identityQuaternion,
            o_scale = vec3 1 1 1, o_visible = True, o_boxMin = vec3 (- 1) (- 1) (- 1),
            o_boxMax = vec3 1 1 1\<rparr>,
        0 := slotCube True),
      bodies = (\<lambda>r. blankBody) (2 := staticBody,
        6 := staticBody,
        7 := \<lparr>b_mass = 2, b_halfExtents = vec3 (17 / 20) (17 / 20) (17 / 20),
            b_linearDamping = 1 / 20, b_angularDamping = 1 / 20,
            b_position = vec3 15 (6 / 5) 0, b_quaternion = identityQuaternion,
            b_force = vec3 0 0 0, b_torque = vec3 0 0 0\<rparr>),
      buildingObjects = (\<lambda>r. blankBuilding) (3 := \<lparr>visual = 4, body = None,
          btype = ''h'', slotId = ''s'', intact = ''i'', cracked = ''c'', damaged = True,
          crackedBodies = [\<lparr>part_self = 8, part_mesh = 5, part_body = 7\<rparr>],
          originalPosition = vec3 15 0 0\<rparr>),
      loadedMeshes = (\<lambda>r. []) (1 := [],
        4 := [5]),
      scene = [0,
        5],
      physicsWorld = [2,
        6,
        7],
      loadedModels = [\<lparr>md_visual = 1, md_physics = 2, md_path = ''i''\<rparr>,
        \<lparr>md_visual = 4, md_physics = 6, md_path = ''c''\<rparr>],
      pending = [\<lparr>req_path = ''i'', req_mass = 0, req_position = vec3 15 0 0,
          req_scale = 1, req_friction = 1 / 2, req_restitution = 1 / 5,
          req_onLoad = PlaceOnLoad (Some (0, vec3 15 0 0)) ''s'' ''h'' ''s_h_8'' housePaths,
          req_catch = CatchIgnore\<rparr>],
      console = [],
      slots = [''s'' \<mapsto> \<lparr>slot_self = 0, slot_position = vec3 15 0 0,
          slot_size = 1,
          occupied = False, slot_buildingType = None, slot_buildingId = None\<rparr>],
      buildings = [''h'' \<mapsto> housePaths],
      slotVisuals = [''s'' \<mapsto> \<lparr>sv_visual = 0, sv_body = None\<rparr>],
      buildingVisuals = [],
      tornado = Some scenarioTornado,
      damageThreshold = 30,
      protoDamaged = []\<rparr>"


text \<open>
  A car of mass 5 dropped at the scenario's query position while the fragment lies on the
  slot: the request \<open>PlacementSystem.placeAsset\<close> makes for the asset \<open>Coche\<close>,
  whose \<open>onLoad\<close> callback and \<open>catch\<close> handler do not touch the state, and the
  state after that load.
\<close>

definition carRequest :: Request where
  "carRequest =
     \<lparr>req_path = ''car'', req_mass = 5, req_position = vec3 15 0 0, req_scale = 1,
      req_friction = 1 / 2, req_restitution = 3 / 10, req_onLoad = NoOnLoad,
      req_catch = CatchIgnore\<rparr>"

definition carGltf :: Gltf where
  "carGltf = \<lparr>g_size = vec3 4 2 2, g_meshes = []\<rparr>"

definition carBody :: Body where
  "carBody =
     \<lparr>b_mass = 5, b_halfExtents = vec3 2 1 1, b_linearDamping = 1 / 50,
      b_angularDamping = 3 / 10, b_position = vec3 15 0 0,
      b_quaternion = identityQuaternion, b_force = vec3 0 0 0, b_torque = vec3 0 0 0\<rparr>"

definition world6 :: World where
  "world6 =
     world4\<lparr>nextRef := 11,
       objects := (objects world4)(9 := modelNode),
       bodies := (bodies world4)(10 := carBody),
       loadedMeshes := (loadedMeshes world4)(9 := []),
       scene := [0, 4, 5, 9],
       physicsWorld := [2, 6, 7, 10],
       loadedModels := [\<lparr>md_visual = 1, md_physics = 2, md_path = ''i''\<rparr>,
         \<lparr>md_visual = 4, md_physics = 6, md_path = ''c''\<rparr>,
         \<lparr>md_visual = 9, md_physics = 10, md_path = ''car''\<rparr>]\<rparr>"


section \<open>Properties of the force field\<close>

lemma sqrt_square: "0 \<le> a \<Longrightarrow> sqrt (a * a) = (a::real)"
  by simp

lemma vec3_sel: "vx (vec3 a b c) = a" "vy (vec3 a b c) = b" "vz (vec3 a b c) = c"
  by (simp_all add: vec3_def)

lemma calculateForceOnObject_eq:
  "calculateForceOnObject t objectPos mass =
     (if distance t objectPos < maxRadius t \<and> distance t objectPos > 0.1 then
        (let d = normalizeV (dirToCenter t objectPos);
             b = baseForce t objectPos mass;
             f1 = addScaledVector zero3 d (b * 0.7);
             f2 = f1\<lparr>vy := vy f1 + liftForce t objectPos mass\<rparr>;
             tangential = vec3 (- vz d) 0 (vx d);
             f3 = addScaledVector f2 tangential (b * 0.5)
         in \<lparr>force = f3,
             torque = vec3 (sin (time t * 2) * b * 0.3) (b * 1.2) (cos (time t * 2) * b * 0.3)\<rparr>)
      else \<lparr>force = zero3, torque = zero3\<rparr>)"
  by (simp add: calculateForceOnObject_def calculateForceOnObjectLogged_def Let_def)

lemma scenario_fields:
  "maxRadius scenarioTornado = 30"
  "tornadoForceStrength scenarioTornado = 150000"
  "time scenarioTornado = 0"
  "position scenarioTornado = vec3 0 0 0"
  by (simp_all add: scenarioTornado_def fieldInitializers_def)

lemma scenario_dir: "dirToCenter scenarioTornado (vec3 a b 0) = vec3 (- a) 0 0"
  by (simp add: dirToCenter_def tornadoCenter_def sub_def vec3_def scenario_fields)

lemma vlength_x_axis: "vlength (vec3 a 0 0) = \<bar>a\<bar>"
  by (simp add: vlength_def vec3_def)

lemma scenario_distance: "distance scenarioTornado (vec3 a b 0) = \<bar>a\<bar>"
  by (simp add: distance_def scenario_dir vlength_x_axis)

lemma scenario_falloff: "falloff scenarioTornado (vec3 15 0 0) = 0.25"
  by (simp add: falloff_def scenario_distance scenario_fields power2_eq_square)

lemma scenario_normalize: "normalizeV (vec3 (- 15) 0 0) = vec3 (- 1) 0 0"
  by (simp add: normalizeV_def vlength_x_axis multiplyScalar_def) (simp add: vec3_def)

lemma scenario_result:
  "calculateForceOnObject scenarioTornado (vec3 15 0 0) 5 =
     \<lparr>force = vec3 (- 5250) 10 (- 3750), torque = vec3 0 9000 2250\<rparr>"
  by (simp add: calculateForceOnObject_eq scenario_distance Let_def scenario_fields
        baseForce_def liftForce_def scenario_falloff scenario_dir scenario_normalize
        addScaledVector_def zero3_def)
     (simp add: vec3_def)

subsection \<open>The field radius and the dead zone\<close>

lemma distance_planar: "distance t p = spec_planarDistance p (position t)"
proof -
  have "(vx (position t) - vx p) * (vx (position t) - vx p)
          + (vz (position t) - vz p) * (vz (position t) - vz p)
      = (vx p - vx (position t)) * (vx p - vx (position t))
          + (vz p - vz (position t)) * (vz p - vz (position t))"
    by (simp add: algebra_simps)
  then show ?thesis
    by (simp add: distance_def dirToCenter_def tornadoCenter_def sub_def vlength_def
        spec_planarDistance_def vec3_sel)
qed

lemma planar_le_spatial: "distance t p \<le> spec_distance t p"
  unfolding distance_planar spec_planarDistance_def spec_distance_def distanceTo_def
  by (rule real_sqrt_le_mono) simp

text \<open>
  C1, as stated: at a distance of at least \<open>maxRadius\<close> from the field center the
  method returns zero force and zero torque. With the distance taken between the two
  points in space this fails above and below the field: the scenario's query position
  (5, 100, 0) is more than 100 units from the center at the origin, \<open>maxRadius\<close> is
  30, and the torque returned for mass 5 has the y component 25000.
\<close>

theorem C1_counterexample:
  "spec_distance scenarioTornado (vec3 5 100 0) \<ge> maxRadius scenarioTornado \<and>
   calculateForceOnObject scenarioTornado (vec3 5 100 0) 5 \<noteq> \<lparr>force = zero3, torque = zero3\<rparr> \<and>
   vy (torque (calculateForceOnObject scenarioTornado (vec3 5 100 0) 5)) = 25000"
proof -
  have "(30::real) \<le> sqrt 10025" by (rule real_le_rsqrt) simp
  then have 1: "spec_distance scenarioTornado (vec3 5 100 0) \<ge> maxRadius scenarioTornado"
    by (simp add: spec_distance_def distanceTo_def scenario_fields vec3_sel)
  have f: "falloff scenarioTornado (vec3 5 100 0) = 25 / 36"
    by (simp add: falloff_def scenario_distance scenario_fields power2_eq_square)
  have 2: "vy (torque (calculateForceOnObject scenarioTornado (vec3 5 100 0) 5)) = 25000"
    by (simp add: calculateForceOnObject_eq scenario_distance Let_def scenario_fields
        baseForce_def f vec3_sel)
  have "vy (torque \<lparr>force = zero3, torque = zero3\<rparr>) = 0" by (simp add: zero3_def vec3_sel)
  with 2 have 3: "calculateForceOnObject scenarioTornado (vec3 5 100 0) 5
                    \<noteq> \<lparr>force = zero3, torque = zero3\<rparr>"
    by auto
  from 1 2 3 show ?thesis by blast
qed

text \<open>
  C1, amended. The distance \<open>calculateForceOnObject\<close> tests is planar: the distance
  of the query position and the field center with the y coordinates ignored. For every
  query position and every mass, when that distance is at least \<open>maxRadius\<close> or at most
  0.1 the method returns zero force and zero torque and normalises nothing; when it lies
  strictly between the two bounds the method normalises the direction to the center and
  no other vector; so every vector it normalises is longer than 0.1. A query position
  within 0.1 of the field center in space is in the dead zone as well.
\<close>

theorem C1_zero_outside_and_dead_zone:
  "distance t p = spec_planarDistance p (position t) \<and>
   (distance t p \<ge> maxRadius t \<or> distance t p \<le> 0.1 \<longrightarrow>
      calculateForceOnObject t p mass = \<lparr>force = zero3, torque = zero3\<rparr> \<and>
      snd (calculateForceOnObjectLogged t p mass) = []) \<and>
   (distance t p < maxRadius t \<and> distance t p > 0.1 \<longrightarrow>
      snd (calculateForceOnObjectLogged t p mass) = [dirToCenter t p]) \<and>
   (\<forall>v \<in> set (snd (calculateForceOnObjectLogged t p mass)). vlength v > 0.1) \<and>
   (spec_distance t p \<le> 0.1 \<longrightarrow>
      calculateForceOnObject t p mass = \<lparr>force = zero3, torque = zero3\<rparr>)"
proof (intro conjI impI)
  show "distance t p = spec_planarDistance p (position t)" by (rule distance_planar)
next
  assume "distance t p \<ge> maxRadius t \<or> distance t p \<le> 0.1"
  then show "calculateForceOnObject t p mass = \<lparr>force = zero3, torque = zero3\<rparr>"
    by (auto simp: calculateForceOnObject_eq)
next
  assume "distance t p \<ge> maxRadius t \<or> distance t p \<le> 0.1"
  then show "snd (calculateForceOnObjectLogged t p mass) = []"
    by (auto simp: calculateForceOnObjectLogged_def)
next
  assume "distance t p < maxRadius t \<and> distance t p > 0.1"
  then show "snd (calculateForceOnObjectLogged t p mass) = [dirToCenter t p]"
    by (simp add: calculateForceOnObjectLogged_def Let_def)
next
  show "\<forall>v \<in> set (snd (calculateForceOnObjectLogged t p mass)). vlength v > 0.1"
    by (simp add: calculateForceOnObjectLogged_def Let_def distance_def)
next
  assume "spec_distance t p \<le> 0.1"
  with planar_le_spatial[of t p] have "distance t p \<le> 0.1" by linarith
  then show "calculateForceOnObject t p mass = \<lparr>force = zero3, torque = zero3\<rparr>"
    by (auto simp: calculateForceOnObject_eq)
qed

text \<open>The amended claim outside the scenario's field, on its axis, inside it and at its
  center.\<close>

theorem C1_witness:
  "distance scenarioTornado (vec3 40 5 0) \<ge> maxRadius scenarioTornado \<and>
   calculateForceOnObject scenarioTornado (vec3 40 5 0) 5 = \<lparr>force = zero3, torque = zero3\<rparr> \<and>
   snd (calculateForceOnObjectLogged scenarioTornado (vec3 40 5 0) 5) = [] \<and>
   distance scenarioTornado (vec3 0 7 0) \<le> 0.1 \<and>
   calculateForceOnObject scenarioTornado (vec3 0 7 0) 2 = \<lparr>force = zero3, torque = zero3\<rparr> \<and>
   snd (calculateForceOnObjectLogged scenarioTornado (vec3 0 7 0) 2) = [] \<and>
   distance scenarioTornado (vec3 15 0 0) < maxRadius scenarioTornado \<and>
   distance scenarioTornado (vec3 15 0 0) > 0.1 \<and>
   snd (calculateForceOnObjectLogged scenarioTornado (vec3 15 0 0) 5)
     = [dirToCenter scenarioTornado (vec3 15 0 0)] \<and>
   vlength (dirToCenter scenarioTornado (vec3 15 0 0)) > 0.1 \<and>
   spec_distance scenarioTornado (vec3 0 0 0) \<le> 0.1 \<and>
   calculateForceOnObject scenarioTornado (vec3 0 0 0) 5 = \<lparr>force = zero3, torque = zero3\<rparr>"
proof -
  have h1: "distance scenarioTornado (vec3 40 5 0) \<ge> maxRadius scenarioTornado"
    by (simp add: scenario_distance scenario_fields)
  have h2: "distance scenarioTornado (vec3 0 7 0) \<le> 0.1"
    by (simp add: scenario_distance)
  have h3: "distance scenarioTornado (vec3 15 0 0) < maxRadius scenarioTornado"
    "distance scenarioTornado (vec3 15 0 0) > 0.1"
    by (simp_all add: scenario_distance scenario_fields)
  have h4: "spec_distance scenarioTornado (vec3 0 0 0) \<le> 0.1"
    by (simp add: spec_distance_def distanceTo_def scenario_fields vec3_sel)
  note a = C1_zero_outside_and_dead_zone[of scenarioTornado "vec3 40 5 0" 5]
  note b = C1_zero_outside_and_dead_zone[of scenarioTornado "vec3 0 7 0" 2]
  note c = C1_zero_outside_and_dead_zone[of scenarioTornado "vec3 15 0 0" 5]
  note d = C1_zero_outside_and_dead_zone[of scenarioTornado "vec3 0 0 0" 5]
  from c h3 have v: "vlength (dirToCenter scenarioTornado (vec3 15 0 0)) > 0.1" by simp
  from a b c d h1 h2 h3 h4 v show ?thesis by blast
qed

subsection \<open>The query of the specification's scenario\<close>

text \<open>
  C3, as stated: in the scenario, the query at (15, 0, 0) with mass 5 has falloff 0.25,
  a force with negative x and positive y, and a torque with positive y and zero x and
  z. The z component of the torque is \<open>cos (time * 2) * baseForce * 0.3\<close>, which at
  \<open>time = 0\<close> is \<open>0.3 * baseForce\<close> and not zero.
\<close>

theorem C3_counterexample:
  "\<not> (falloff scenarioTornado (vec3 15 0 0) = 0.25 \<and>
      vx (force (calculateForceOnObject scenarioTornado (vec3 15 0 0) 5)) < 0 \<and>
      vy (force (calculateForceOnObject scenarioTornado (vec3 15 0 0) 5)) > 0 \<and>
      vy (torque (calculateForceOnObject scenarioTornado (vec3 15 0 0) 5)) > 0 \<and>
      vx (torque (calculateForceOnObject scenarioTornado (vec3 15 0 0) 5)) = 0 \<and>
      vz (torque (calculateForceOnObject scenarioTornado (vec3 15 0 0) 5)) = 0)"
  by (simp add: scenario_result vec3_sel)

text \<open>
  C3, amended: in the scenario the falloff is 0.25, the force has a strictly negative x
  component and a strictly positive y component, and the torque has a strictly positive
  y component, a zero x component and the strictly positive z component 2250 (that is
  \<open>0.3 * baseForce\<close>, with \<open>baseForce = 7500\<close>).
\<close>

theorem C3_scenario:
  "falloff scenarioTornado (vec3 15 0 0) = 0.25 \<and>
   vx (force (calculateForceOnObject scenarioTornado (vec3 15 0 0) 5)) < 0 \<and>
   vy (force (calculateForceOnObject scenarioTornado (vec3 15 0 0) 5)) > 0 \<and>
   vy (torque (calculateForceOnObject scenarioTornado (vec3 15 0 0) 5)) > 0 \<and>
   vx (torque (calculateForceOnObject scenarioTornado (vec3 15 0 0) 5)) = 0 \<and>
   vz (torque (calculateForceOnObject scenarioTornado (vec3 15 0 0) 5)) = 2250 \<and>
   baseForce scenarioTornado (vec3 15 0 0) 5 = 7500"
  by (simp add: scenario_result scenario_falloff baseForce_def scenario_fields vec3_sel)

section \<open>The recycle invariant of the particle pool\<close>

lemma skip_range: "\<forall>k. 0 \<le> r k \<and> r k < 1 \<Longrightarrow> \<forall>k. 0 \<le> skip n r k \<and> skip n r k < 1"
  by (simp add: skip_def)

lemma createParticle_height:
  assumes "0 \<le> r 0" "r 0 < 1" "0 \<le> r 4" "0 \<le> maxHeight t"
  shows "0 \<le> height (fst (createParticle t r))"
    and "height (fst (createParticle t r)) \<le> maxHeight t"
    and "0 \<le> upwardSpeed (fst (createParticle t r))"
proof -
  have le1: "r 0 powr 1.5 \<le> 1" using assms by (intro powr_le1) simp_all
  have ge0: "0 \<le> r 0 powr 1.5" by simp
  show "0 \<le> height (fst (createParticle t r))"
    using ge0 assms by (simp add: createParticle_def Let_def)
  have "r 0 powr 1.5 * maxHeight t \<le> 1 * maxHeight t"
    using le1 assms(4) by (rule mult_right_mono)
  then show "height (fst (createParticle t r)) \<le> maxHeight t"
    by (simp add: createParticle_def Let_def)
  show "0 \<le> upwardSpeed (fst (createParticle t r))"
    using assms by (simp add: createParticle_def Let_def)
qed

lemma createParticles_good:
  assumes "\<forall>k. 0 \<le> r k \<and> r k < 1" "0 \<le> maxHeight t"
  shows "\<forall>pv \<in> set (createParticles t n r).
           0 \<le> height (fst pv) \<and> height (fst pv) \<le> maxHeight t \<and> 0 \<le> upwardSpeed (fst pv)"
  using assms
proof (induction n arbitrary: r)
  case 0
  then show ?case by simp
next
  case (Suc n)
  have "\<forall>k. 0 \<le> skip 15 r k \<and> skip 15 r k < 1"
    using Suc.prems(1) by (rule skip_range)
  with Suc.IH Suc.prems(2)
  have IH: "\<forall>pv \<in> set (createParticles t n (skip 15 r)).
           0 \<le> height (fst pv) \<and> height (fst pv) \<le> maxHeight t \<and> 0 \<le> upwardSpeed (fst pv)"
    by blast
  have "0 \<le> r 0" "r 0 < 1" "0 \<le> r 4" using Suc.prems(1) by auto
  from createParticle_height[OF this Suc.prems(2)] IH show ?case by simp
qed

lemma length_createParticles: "length (createParticles t n r) = n"
  by (induction n arbitrary: r) simp_all

lemma place_fields:
  "height (fst (place t delta p)) = height p"
  "upwardSpeed (fst (place t delta p)) = upwardSpeed p"
  "phase (fst (place t delta p)) = phase p"
  "radialPhase (fst (place t delta p)) = radialPhase p"
  by (simp_all add: place_def Let_def)

lemma updateParticle_height:
  assumes "0 \<le> height p" "0 \<le> upwardSpeed p" "0 \<le> delta" "0 \<le> maxHeight t"
  shows "0 \<le> height (fst (fst (updateParticle t delta c g p r)))"
    and "height (fst (fst (updateParticle t delta c g p r))) \<le> maxHeight t"
    and "upwardSpeed (fst (fst (updateParticle t delta c g p r))) = upwardSpeed p"
  using assms
  by (auto simp: updateParticle_def Let_def place_fields recycle_def)

lemma updateParticles_good:
  assumes "\<forall>p \<in> set ps. 0 \<le> height p \<and> 0 \<le> upwardSpeed p" "0 \<le> delta" "0 \<le> maxHeight t"
  shows "length (fst (updateParticles t delta c g ps r)) = length ps \<and>
         (\<forall>pv \<in> set (fst (updateParticles t delta c g ps r)).
            0 \<le> height (fst pv) \<and> height (fst pv) \<le> maxHeight t \<and> 0 \<le> upwardSpeed (fst pv))"
  using assms(1)
proof (induction ps arbitrary: r)
  case Nil
  then show ?case by simp
next
  case (Cons p ps)
  obtain pv r1 where u: "updateParticle t delta c g p r = (pv, r1)"
    by (cases "updateParticle t delta c g p r")
  obtain pvs r2 where us: "updateParticles t delta c g ps r1 = (pvs, r2)"
    by (cases "updateParticles t delta c g ps r1")
  have p: "0 \<le> height p" "0 \<le> upwardSpeed p" using Cons.prems by auto
  have pv: "0 \<le> height (fst pv) \<and> height (fst pv) \<le> maxHeight t \<and> 0 \<le> upwardSpeed (fst pv)"
    using updateParticle_height[OF p assms(2,3), of c g r] p u by simp
  have "\<forall>p \<in> set ps. 0 \<le> height p \<and> 0 \<le> upwardSpeed p" using Cons.prems by simp
  from Cons.IH[OF this, of r1] us pv u show ?case by simp
qed

lemma length_updateParticles:
  "length (fst (updateParticles t delta c g ps r)) = length ps"
proof (induction ps arbitrary: r)
  case Nil
  then show ?case by simp
next
  case (Cons p ps)
  obtain pv r1 where u: "updateParticle t delta c g p r = (pv, r1)"
    by (cases "updateParticle t delta c g p r")
  obtain pvs r2 where us: "updateParticles t delta c g ps r1 = (pvs, r2)"
    by (cases "updateParticles t delta c g ps r1")
  from Cons.IH[of r1] u us show ?case by simp
qed

lemma update_good:
  assumes "particleCount t = length (particles t)"
    "\<forall>p \<in> set (particles t). 0 \<le> height p \<and> 0 \<le> upwardSpeed p" "0 \<le> delta" "0 \<le> maxHeight t"
  shows "\<exists>t' r'. update t delta r = Inr (t', r') \<and> particleCount t' = length (particles t') \<and>
           maxHeight t' = maxHeight t \<and> particleCount t' = particleCount t \<and>
           (\<forall>p \<in> set (particles t'). 0 \<le> height p \<and> height p \<le> maxHeight t' \<and> 0 \<le> upwardSpeed p)"
proof -
  let ?t1 = "t\<lparr>time := time t + delta, formationTime := formationTime t + delta,
                 position := addScaledVector (position t) (velocity t) delta\<rparr>"
  let ?progress = "min (formationTime ?t1 / formationDuration ?t1) 1"
  let ?c = "maxHeight ?t1 * ?progress"
  let ?g = "1 - ?progress"
  obtain pvs r' where us: "updateParticles ?t1 delta ?c ?g (particles t) r = (pvs, r')"
    by (cases "updateParticles ?t1 delta ?c ?g (particles t) r")
  have mh: "0 \<le> maxHeight ?t1" using assms(4) by simp
  from updateParticles_good[OF assms(2,3) mh, of ?c ?g r] us
  have len: "length pvs = length (particles t)"
    and good: "\<forall>pv \<in> set pvs. 0 \<le> height (fst pv) \<and> height (fst pv) \<le> maxHeight t
                 \<and> 0 \<le> upwardSpeed (fst pv)"
    by simp_all
  have "update t delta r =
          Inr (?t1\<lparr>particles := map fst pvs @ drop (particleCount ?t1) (particles ?t1),
                    positions := take (length (positions ?t1))
                                   (map snd pvs @ drop (particleCount ?t1) (positions ?t1))\<rparr>, r')"
    using us assms(1) by (simp add: update_def Let_def)
  then show ?thesis using len good assms(1) by simp
qed

lemma updateFrames_good:
  assumes "\<forall>d \<in> set deltas. 0 \<le> d" "0 \<le> maxHeight t" "particleCount t = length (particles t)"
    "\<forall>p \<in> set (particles t). 0 \<le> height p \<and> height p \<le> maxHeight t \<and> 0 \<le> upwardSpeed p"
  shows "\<exists>t' r'. updateFrames t deltas r = Inr (t', r') \<and>
           length (particles t') = particleCount t \<and>
           (\<forall>p \<in> set (particles t'). 0 \<le> height p \<and> height p \<le> maxHeight t)"
  using assms
proof (induction deltas arbitrary: t r)
  case Nil
  then show ?case by simp
next
  case (Cons d ds)
  have d: "0 \<le> d" using Cons.prems(1) by simp
  have g: "\<forall>p \<in> set (particles t). 0 \<le> height p \<and> 0 \<le> upwardSpeed p"
    using Cons.prems(4) by blast
  from update_good[OF Cons.prems(3) g d Cons.prems(2), of r]
  obtain t1 r1 where u: "update t d r = Inr (t1, r1)" "particleCount t1 = length (particles t1)"
     "maxHeight t1 = maxHeight t" "particleCount t1 = particleCount t"
     "\<forall>p \<in> set (particles t1). 0 \<le> height p \<and> height p \<le> maxHeight t1 \<and> 0 \<le> upwardSpeed p"
    by blast
  have "\<forall>d \<in> set ds. 0 \<le> d" using Cons.prems(1) by simp
  from Cons.IH[OF this _ u(2) u(5), of r1] u(3,4) Cons.prems(2) u(1) show ?case by simp
qed

lemma created_good:
  assumes "\<forall>k. 0 \<le> r k \<and> r k < 1" "0 \<le> maxHeight t0"
  shows "particleCount (fst (createGeometryAndMesh t0 r))
           = length (particles (fst (createGeometryAndMesh t0 r)))"
    and "maxHeight (fst (createGeometryAndMesh t0 r)) = maxHeight t0"
    and "\<forall>p \<in> set (particles (fst (createGeometryAndMesh t0 r))).
           0 \<le> height p \<and> height p \<le> maxHeight t0 \<and> 0 \<le> upwardSpeed p"
  using createParticles_good[OF assms, of "particleCount t0"]
  by (simp_all add: createGeometryAndMesh_def Let_def length_createParticles)

lemma skip_0: "skip 0 r = r"
  by (simp add: skip_def)

lemma skip_skip: "skip a (skip b r) = skip (a + b) r"
  by (simp add: skip_def ac_simps)

lemma updateParticles_nth:
  "i < length ps \<Longrightarrow>
   fst (updateParticles t delta c g ps r) ! i =
     fst (updateParticle t delta c g (ps ! i)
            (skip (3 * length (filter (\<lambda>q. height q + upwardSpeed q * delta > maxHeight t \<or>
                                           height q + upwardSpeed q * delta > c) (take i ps))) r))"
proof (induction ps arbitrary: r i)
  case Nil
  then show ?case by simp
next
  case (Cons p ps)
  obtain pv r1 where u: "updateParticle t delta c g p r = (pv, r1)"
    by (cases "updateParticle t delta c g p r")
  obtain pvs r2 where us: "updateParticles t delta c g ps r1 = (pvs, r2)"
    by (cases "updateParticles t delta c g ps r1")
  have r1: "r1 = (if height p + upwardSpeed p * delta > maxHeight t \<or>
                     height p + upwardSpeed p * delta > c then skip 3 r else r)"
    using u by (auto simp: updateParticle_def Let_def)
  show ?case
  proof (cases i)
    case 0
    then show ?thesis using u us by (simp add: skip_0)
  next
    case (Suc j)
    then have j: "j < length ps" using Cons.prems by simp
    from Cons.IH[OF j, of r1] us
    have "pvs ! j = fst (updateParticle t delta c g (ps ! j)
            (skip (3 * length (filter (\<lambda>q. height q + upwardSpeed q * delta > maxHeight t \<or>
                                           height q + upwardSpeed q * delta > c) (take j ps))) r1))"
      by simp
    then show ?thesis using Suc u us r1 by (simp add: skip_skip add.commute)
  qed
qed

lemma update_nth:
  assumes "particleCount t \<le> length (particles t)" "i < particleCount t"
  shows "\<exists>t' r'. update t delta rr = Inr (t', r') \<and>
           (let t1 = t\<lparr>time := time t + delta, formationTime := formationTime t + delta,
                        position := addScaledVector (position t) (velocity t) delta\<rparr>;
                progress = min ((formationTime t + delta) / formationDuration t) 1;
                currentCeiling = maxHeight t * progress;
                k = 3 * length (filter (\<lambda>q. height q + upwardSpeed q * delta > maxHeight t \<or>
                                               height q + upwardSpeed q * delta > currentCeiling)
                                       (take i (particles t)))
            in particles t' ! i =
                 fst (fst (updateParticle t1 delta currentCeiling (1 - progress) (particles t ! i)
                             (skip k rr))))"
proof -
  let ?t1 = "t\<lparr>time := time t + delta, formationTime := formationTime t + delta,
                 position := addScaledVector (position t) (velocity t) delta\<rparr>"
  let ?progress = "min ((formationTime t + delta) / formationDuration t) 1"
  let ?c = "maxHeight t * ?progress"
  let ?g = "1 - ?progress"
  let ?ps = "take (particleCount t) (particles t)"
  obtain pvs r' where us: "updateParticles ?t1 delta ?c ?g ?ps rr = (pvs, r')"
    by (cases "updateParticles ?t1 delta ?c ?g ?ps rr")
  have i: "i < length ?ps" using assms by simp
  have ti: "min i (particleCount t) = i" using assms(2) by simp
  have ni: "?ps ! i = particles t ! i" using assms(2) by simp
  from updateParticles_nth[OF i, of ?t1 delta ?c ?g rr] us
  have n: "pvs ! i = fst (updateParticle ?t1 delta ?c ?g (particles t ! i)
            (skip (3 * length (filter (\<lambda>q. height q + upwardSpeed q * delta > maxHeight t \<or>
                                           height q + upwardSpeed q * delta > ?c)
                                       (take i (particles t)))) rr))"
    by (simp add: ti ni)
  have len: "length pvs = particleCount t"
    using length_updateParticles[of ?t1 delta ?c ?g ?ps rr] us assms(1) by simp
  have u: "update t delta rr =
          Inr (?t1\<lparr>particles := map fst pvs @ drop (particleCount ?t1) (particles ?t1),
                    positions := take (length (positions ?t1))
                                   (map snd pvs @ drop (particleCount ?t1) (positions ?t1))\<rparr>, r')"
    using us assms(1) by (simp add: update_def Let_def)
  show ?thesis using n len assms(2) by (simp add: u Let_def nth_append)
qed

text \<open>
  C4. For the pool built by \<open>createGeometryAndMesh\<close> (random draws in [0, 1), a
  non-negative \<open>maxHeight\<close>) and every finite sequence of frames with non-negative time
  deltas, \<open>update\<close> returns after each frame of the sequence, the pool keeps its
  size, and every particle's height lies between 0 and \<open>maxHeight\<close>. And one
  \<open>update\<close>, on any tornado that holds at least \<open>particleCount\<close> particles, does
  to the particle \<open>i\<close> below \<open>particleCount\<close> what the claim says: it advances the
  height by \<open>upwardSpeed * delta\<close>; when the advanced height exceeds \<open>maxHeight\<close>
  or the growth ceiling of the frame, \<open>maxHeight * min (formationTime /
  formationDuration) 1\<close>, the height becomes 0 and angle, phase and radialPhase are
  drawn anew, from the three random values that follow those drawn for the particles
  recycled before it in the frame (the angle is then advanced by the frame's rotation,
  like that of a particle that is not recycled); otherwise the advanced height stays, and
  phase and radialPhase with it.
\<close>

theorem C4_height_in_range:
  assumes "\<forall>k. 0 \<le> r k \<and> r k < 1" "0 \<le> maxHeight t0" "\<forall>d \<in> set deltas. 0 \<le> d"
    and "particleCount t \<le> length (particles t)" "i < particleCount t"
  shows "(\<forall>n \<le> length deltas.
            \<exists>t' r'. updateFrames (fst (createGeometryAndMesh t0 r)) (take n deltas) ru = Inr (t', r') \<and>
                    length (particles t') = particleCount t0 \<and>
                    (\<forall>p \<in> set (particles t'). 0 \<le> height p \<and> height p \<le> maxHeight t0)) \<and>
         (\<exists>t' r'. update t delta rr = Inr (t', r') \<and>
            (let t1 = t\<lparr>time := time t + delta, formationTime := formationTime t + delta,
                         position := addScaledVector (position t) (velocity t) delta\<rparr>;
                 progress = min ((formationTime t + delta) / formationDuration t) 1;
                 currentCeiling = maxHeight t * progress;
                 p = particles t ! i;
                 h = height p + upwardSpeed p * delta;
                 k = 3 * length (filter (\<lambda>q. height q + upwardSpeed q * delta > maxHeight t \<or>
                                                height q + upwardSpeed q * delta > currentCeiling)
                                        (take i (particles t)));
                 p' = particles t' ! i
             in if h > maxHeight t \<or> h > currentCeiling
                then p' = fst (place t1 delta
                                 (p\<lparr>chaosFactor := 1 - progress, height := 0,
                                     angle := rr k * 2 * pi, phase := rr (k + 1) * pi * 2,
                                     radialPhase := rr (k + 2) * pi * 2\<rparr>)) \<and>
                     height p' = 0 \<and> phase p' = rr (k + 1) * pi * 2 \<and>
                     radialPhase p' = rr (k + 2) * pi * 2
                else p' = fst (place t1 delta (p\<lparr>chaosFactor := 1 - progress, height := h\<rparr>)) \<and>
                     height p' = h \<and> phase p' = phase p \<and> radialPhase p' = radialPhase p))"
proof
  show "\<forall>n \<le> length deltas.
            \<exists>t' r'. updateFrames (fst (createGeometryAndMesh t0 r)) (take n deltas) ru = Inr (t', r') \<and>
                    length (particles t') = particleCount t0 \<and>
                    (\<forall>p \<in> set (particles t'). 0 \<le> height p \<and> height p \<le> maxHeight t0)"
  proof (intro allI impI)
    fix n
    have "set (take n deltas) \<subseteq> set deltas" by (rule set_take_subset)
    with assms(3) have d: "\<forall>d \<in> set (take n deltas). 0 \<le> d" by blast
    have pc: "particleCount (fst (createGeometryAndMesh t0 r)) = particleCount t0"
      by (simp add: createGeometryAndMesh_def Let_def)
    from created_good[OF assms(1,2)]
      updateFrames_good[OF d, of "fst (createGeometryAndMesh t0 r)" ru]
    show "\<exists>t' r'. updateFrames (fst (createGeometryAndMesh t0 r)) (take n deltas) ru = Inr (t', r') \<and>
                    length (particles t') = particleCount t0 \<and>
                    (\<forall>p \<in> set (particles t'). 0 \<le> height p \<and> height p \<le> maxHeight t0)"
      using assms(2) pc by simp
  qed
next
  from update_nth[OF assms(4,5), of delta rr]
  obtain t' r' where u: "update t delta rr = Inr (t', r')"
    and n: "(let t1 = t\<lparr>time := time t + delta, formationTime := formationTime t + delta,
                        position := addScaledVector (position t) (velocity t) delta\<rparr>;
                progress = min ((formationTime t + delta) / formationDuration t) 1;
                currentCeiling = maxHeight t * progress;
                k = 3 * length (filter (\<lambda>q. height q + upwardSpeed q * delta > maxHeight t \<or>
                                               height q + upwardSpeed q * delta > currentCeiling)
                                       (take i (particles t)))
            in particles t' ! i =
                 fst (fst (updateParticle t1 delta currentCeiling (1 - progress) (particles t ! i)
                             (skip k rr))))"
    by blast
  have "(let t1 = t\<lparr>time := time t + delta, formationTime := formationTime t + delta,
                         position := addScaledVector (position t) (velocity t) delta\<rparr>;
                 progress = min ((formationTime t + delta) / formationDuration t) 1;
                 currentCeiling = maxHeight t * progress;
                 p = particles t ! i;
                 h = height p + upwardSpeed p * delta;
                 k = 3 * length (filter (\<lambda>q. height q + upwardSpeed q * delta > maxHeight t \<or>
                                                height q + upwardSpeed q * delta > currentCeiling)
                                        (take i (particles t)));
                 p' = particles t' ! i
             in if h > maxHeight t \<or> h > currentCeiling
                then p' = fst (place t1 delta
                                 (p\<lparr>chaosFactor := 1 - progress, height := 0,
                                     angle := rr k * 2 * pi, phase := rr (k + 1) * pi * 2,
                                     radialPhase := rr (k + 2) * pi * 2\<rparr>)) \<and>
                     height p' = 0 \<and> phase p' = rr (k + 1) * pi * 2 \<and>
                     radialPhase p' = rr (k + 2) * pi * 2
                else p' = fst (place t1 delta (p\<lparr>chaosFactor := 1 - progress, height := h\<rparr>)) \<and>
                     height p' = h \<and> phase p' = phase p \<and> radialPhase p' = radialPhase p)"
    using n by (simp add: Let_def updateParticle_def recycle_def skip_def place_fields)
  with u show "\<exists>t' r'. update t delta rr = Inr (t', r') \<and>
            (let t1 = t\<lparr>time := time t + delta, formationTime := formationTime t + delta,
                         position := addScaledVector (position t) (velocity t) delta\<rparr>;
                 progress = min ((formationTime t + delta) / formationDuration t) 1;
                 currentCeiling = maxHeight t * progress;
                 p = particles t ! i;
                 h = height p + upwardSpeed p * delta;
                 k = 3 * length (filter (\<lambda>q. height q + upwardSpeed q * delta > maxHeight t \<or>
                                                height q + upwardSpeed q * delta > currentCeiling)
                                        (take i (particles t)));
                 p' = particles t' ! i
             in if h > maxHeight t \<or> h > currentCeiling
                then p' = fst (place t1 delta
                                 (p\<lparr>chaosFactor := 1 - progress, height := 0,
                                     angle := rr k * 2 * pi, phase := rr (k + 1) * pi * 2,
                                     radialPhase := rr (k + 2) * pi * 2\<rparr>)) \<and>
                     height p' = 0 \<and> phase p' = rr (k + 1) * pi * 2 \<and>
                     radialPhase p' = rr (k + 2) * pi * 2
                else p' = fst (place t1 delta (p\<lparr>chaosFactor := 1 - progress, height := h\<rparr>)) \<and>
                     height p' = h \<and> phase p' = phase p \<and> radialPhase p' = radialPhase p)"
    by blast
qed


text \<open>A pool of two particles over the frames 0 and 1000, and the sample particle, one
  unit below the top, over a frame of one second.\<close>

theorem C4_witness:
  "(\<forall>k. (0::real) \<le> 1 / 2 \<and> (1 / 2 :: real) < 1) \<and>
   0 \<le> maxHeight (fieldInitializers\<lparr>particleCount := 2\<rparr>) \<and>
   (0::real) \<le> 0 \<and> (0::real) \<le> 1000 \<and>
   particleCount (fieldInitializers\<lparr>particleCount := 1, particles := [sampleParticle]\<rparr>)
     \<le> length (particles (fieldInitializers\<lparr>particleCount := 1, particles := [sampleParticle]\<rparr>)) \<and>
   0 < particleCount (fieldInitializers\<lparr>particleCount := 1, particles := [sampleParticle]\<rparr>) \<and>
   (\<exists>t' r'. updateFrames (fst (createGeometryAndMesh (fieldInitializers\<lparr>particleCount := 2\<rparr>) (\<lambda>k. 1 / 2)))
                [0] (\<lambda>k. 1 / 4) = Inr (t', r') \<and>
            length (particles t') = 2 \<and>
            (\<forall>p \<in> set (particles t'). 0 \<le> height p \<and> height p \<le> 50)) \<and>
   (\<exists>t' r'. updateFrames (fst (createGeometryAndMesh (fieldInitializers\<lparr>particleCount := 2\<rparr>) (\<lambda>k. 1 / 2)))
                [0, 1000] (\<lambda>k. 1 / 4) = Inr (t', r') \<and>
            length (particles t') = 2 \<and>
            (\<forall>p \<in> set (particles t'). 0 \<le> height p \<and> height p \<le> 50)) \<and>
   height sampleParticle + upwardSpeed sampleParticle * 1 > maxHeight fieldInitializers \<and>
   (\<exists>t' r'. update (fieldInitializers\<lparr>particleCount := 1, particles := [sampleParticle]\<rparr>) 1 (\<lambda>k. 1 / 4)
               = Inr (t', r') \<and>
            height (particles t' ! 0) = 0 \<and>
            phase (particles t' ! 0) = 1 / 4 * pi * 2 \<and>
            radialPhase (particles t' ! 0) = 1 / 4 * pi * 2)"
proof -
  let ?pool = "fieldInitializers\<lparr>particleCount := 2\<rparr>"
  let ?one = "fieldInitializers\<lparr>particleCount := 1, particles := [sampleParticle]\<rparr>"
  have h1: "\<forall>k. (0::real) \<le> 1 / 2 \<and> (1 / 2 :: real) < 1" by simp
  have h2: "0 \<le> maxHeight ?pool" by (simp add: fieldInitializers_def)
  have h3: "\<forall>d \<in> set [0, 1000 :: real]. 0 \<le> d" by simp
  have h3': "(0::real) \<le> 0 \<and> (0::real) \<le> 1000" by simp
  have h4: "particleCount ?one \<le> length (particles ?one)" by simp
  have h5: "0 < particleCount ?one" by simp
  have c: "height sampleParticle + upwardSpeed sampleParticle * 1 > maxHeight fieldInitializers"
    by (simp add: sampleParticle_def fieldInitializers_def)
  note inst = C4_height_in_range[OF h1 h2 h3 h4 h5, where ru = "\<lambda>k. 1 / 4" and delta = 1
      and rr = "\<lambda>k. 1 / 4"]
  have m1: "maxHeight ?pool = (50::real)" by (simp add: fieldInitializers_def)
  have m2: "particleCount ?pool = (2::nat)" by simp
  note m = m1 m2
  from inst have a: "\<forall>n \<le> length [0, 1000 :: real].
            \<exists>t' r'. updateFrames (fst (createGeometryAndMesh ?pool (\<lambda>k. 1 / 2))) (take n [0, 1000]) (\<lambda>k. 1 / 4)
                      = Inr (t', r') \<and>
                    length (particles t') = 2 \<and>
                    (\<forall>p \<in> set (particles t'). 0 \<le> height p \<and> height p \<le> 50)"
    unfolding m by (rule conjunct1)
  from a[rule_format, of 1] have a1: "\<exists>t' r'. updateFrames (fst (createGeometryAndMesh ?pool (\<lambda>k. 1 / 2)))
                [0] (\<lambda>k. 1 / 4) = Inr (t', r') \<and>
            length (particles t') = 2 \<and>
            (\<forall>p \<in> set (particles t'). 0 \<le> height p \<and> height p \<le> 50)"
    by simp
  from a[rule_format, of 2] have a2: "\<exists>t' r'. updateFrames (fst (createGeometryAndMesh ?pool (\<lambda>k. 1 / 2)))
                [0, 1000] (\<lambda>k. 1 / 4) = Inr (t', r') \<and>
            length (particles t') = 2 \<and>
            (\<forall>p \<in> set (particles t'). 0 \<le> height p \<and> height p \<le> 50)"
    by simp
  have "\<exists>t' r'. update ?one 1 (\<lambda>k. 1 / 4) = Inr (t', r') \<and>
            height (particles t' ! 0) = 0 \<and>
            phase (particles t' ! 0) = 1 / 4 * pi * 2 \<and>
            radialPhase (particles t' ! 0) = 1 / 4 * pi * 2"
    using inst[THEN conjunct2] c
    apply (elim exE conjE)
    subgoal for t' r'
      apply (rule exI[of _ t'])
      apply (rule exI[of _ r'])
      apply (simp add: Let_def fieldInitializers_def sampleParticle_def place_fields)
      done
    done
  with h1 h2 h3' h4 h5 a1 a2 c show ?thesis by blast
qed

section \<open>The scenario is reachable\<close>

text \<open>Each state of the scenario is the result of the operation named on the previous
  one.\<close>

lemma vec3_upd: "(vec3 a b c)\<lparr>vy := d\<rparr> = vec3 a d c"
  by (simp add: vec3_def)

lemma digits: "toString 7 = ''7''" "toString 8 = ''8''"
  by code_simp+

lemma digits_Suc:
  "toString (Suc (Suc (Suc (Suc (Suc (Suc (Suc 0))))))) = ''7''"
  "toString (Suc (Suc (Suc (Suc (Suc (Suc (Suc (Suc 0)))))))) = ''8''"
  using digits by (simp_all add: eval_nat_numeral)

lemmas scenario_defs = slotCube_def modelNode_def staticBody_def housePaths_def
  intactGltf_def crackedGltf_def three0_def piece_def

lemmas run_defs = addSlot_def addBuilding_def setTornado_def newRef_def sceneAdd_def
  sceneRemove_def addBody_def removeBody_def load_def loaded_def placeBuilding_def placeOnLoad_def
  demolishBuilding_def damageBuilding_def damageOnLoad_def createDebris_def runOnLoad_def
  loadSucceeds_def loadFails_def orElse_def md_body_def Let_def createPhysicsBody_def
  getProperty_def ownProperty_def slotFields_def buildingFields_def buildingVisualsProperty_def
  prototypeMembers_def objectPrototypeMembers_def inheritedDamaged_def
  getSize_def getCenter_def boxIsEmpty_def vec3_sel vec3_upd vadd_def sub_def multiplyScalar_def
  zero3_def digits_Suc AList.delete_eq eval_nat_numeral

lemma world0_reached:
  "addSlot ''s'' (vec3 15 0 0) (Some 1) None
     (addBuilding ''h'' ''i'' ''c'' (Some 2) (setTornado scenarioTornado initialWorld)) = world0"
  by (simp add: world0_def initialWorld_def run_defs scenario_defs)

lemma world1_reached: "placeBuilding ''s'' ''h'' 7 world0 = Inr world1"
  by (simp add: world0_def world1_def run_defs scenario_defs)

lemma world2_reached: "loadSucceeds three0 0 intactGltf world1 = Inr world2"
  by (simp add: world1_def world2_def run_defs scenario_defs)

lemma world3_reached: "damageBuilding ''s_h_7'' world2 = world3"
  by (simp add: world2_def world3_def run_defs scenario_defs)

lemma world3f_reached: "loadFails 0 ''404'' world3 = world3f"
  by (simp add: world3_def world3f_def run_defs scenario_defs)

lemma world4_reached: "loadSucceeds three0 0 crackedGltf world3 = Inr world4"
  by (simp add: world3_def world4_def run_defs scenario_defs)

lemma world5_reached: "placeBuilding ''s'' ''h'' 8 world4 = Inr world5"
  by (simp add: world4_def world5_def run_defs scenario_defs)

lemma world6_reached: "loadSucceeds three0 0 carGltf (load carRequest world4) = Inr world6"
  by (simp add: world4_def world6_def carRequest_def carGltf_def carBody_def run_defs
      scenario_defs)

section \<open>The destruction transition\<close>

subsection \<open>damageBuilding\<close>

lemma damageBuilding_damaged:
  "map_of (buildingVisuals w) bid = Some b \<Longrightarrow> damaged (buildingObjects w b) \<Longrightarrow>
   damageBuilding bid w = w"
  by (simp add: damageBuilding_def buildingVisualsProperty_def Let_def)

lemma damageBuilding_intact:
  assumes "map_of (buildingVisuals w) bid = Some b" "\<not> damaged (buildingObjects w b)"
  shows "buildingVisuals (damageBuilding bid w) = buildingVisuals w"
    and "buildingObjects (damageBuilding bid w) =
           (buildingObjects w)(b := (buildingObjects w b)\<lparr>damaged := True\<rparr>)"
    and "objects (damageBuilding bid w) = objects w"
    and "scene (damageBuilding bid w) = removeAll (visual (buildingObjects w b)) (scene w)"
    and "console (damageBuilding bid w) = console w"
    and "damageThreshold (damageBuilding bid w) = damageThreshold w"
    and "length (pending (damageBuilding bid w)) = Suc (length (pending w))"
    and "take (length (pending w)) (pending (damageBuilding bid w)) = pending w"
    and "req_catch (pending (damageBuilding bid w) ! length (pending w)) = CatchConsoleError"
    and "\<exists>pos q m. req_onLoad (pending (damageBuilding bid w) ! length (pending w))
           = DamageOnLoad b pos q m"
  using assms
  by (simp_all add: damageBuilding_def buildingVisualsProperty_def Let_def load_def
      sceneRemove_def removeBody_def split: option.splits)

lemma damageBuilding_idem:
  assumes "map_of (buildingVisuals w) bid = Some b"
  shows "damageBuilding bid (damageBuilding bid w) = damageBuilding bid w"
proof (cases "damaged (buildingObjects w b)")
  case True
  with assms show ?thesis by (simp add: damageBuilding_damaged)
next
  case False
  have "map_of (buildingVisuals (damageBuilding bid w)) bid = Some b"
    using assms False by (simp add: damageBuilding_intact)
  moreover have "damaged (buildingObjects (damageBuilding bid w) b)"
    using assms False by (simp add: damageBuilding_intact)
  ultimately show ?thesis by (rule damageBuilding_damaged)
qed

lemma damageScan_damaged: "damaged (buildingObjects w b) \<Longrightarrow> damageScan t bid b w = w"
  by (simp add: damageScan_def Let_def)

subsection \<open>Loading\<close>

lemma allocMeshes_keeps:
  "length (fst (allocMeshes ms w)) = length ms \<and>
   (\<exists>n obj. snd (allocMeshes ms w) = w\<lparr>nextRef := n, objects := obj\<rparr>)"
proof (induction ms arbitrary: w)
  case Nil
  have "\<exists>n obj. w = w\<lparr>nextRef := n, objects := obj\<rparr>"
    by (rule exI[of _ "nextRef w"], rule exI[of _ "objects w"]) simp
  then show ?case by simp
next
  case (Cons m ms)
  let ?w1 = "w\<lparr>nextRef := Suc (nextRef w), objects := (objects w)(nextRef w := m)\<rparr>"
  from Cons.IH[of ?w1] obtain n obj where
    l: "length (fst (allocMeshes ms ?w1)) = length ms" and
    s: "snd (allocMeshes ms ?w1) = ?w1\<lparr>nextRef := n, objects := obj\<rparr>" by blast
  have "snd (allocMeshes (m # ms) w) = w\<lparr>nextRef := n, objects := obj\<rparr>"
    using s by (auto simp: newRef_def split: prod.splits)
  moreover have "length (fst (allocMeshes (m # ms) w)) = length (m # ms)"
    using l by (auto simp: newRef_def split: prod.splits)
  ultimately show ?case by blast
qed

lemma loaded_keeps:
  "buildingObjects (snd (loaded req gltf w)) = buildingObjects w"
  "buildingVisuals (snd (loaded req gltf w)) = buildingVisuals w"
  "pending (snd (loaded req gltf w)) = pending w"
  "console (snd (loaded req gltf w)) = console w"
  "length (loadedMeshes (snd (loaded req gltf w)) (md_visual (fst (loaded req gltf w))))
     = length (g_meshes gltf)"
proof -
  let ?w1 = "w\<lparr>nextRef := Suc (nextRef w)\<rparr>"
  from allocMeshes_keeps[of "g_meshes gltf" ?w1] obtain n obj where
    l: "length (fst (allocMeshes (g_meshes gltf) ?w1)) = length (g_meshes gltf)" and
    s: "snd (allocMeshes (g_meshes gltf) ?w1) = ?w1\<lparr>nextRef := n, objects := obj\<rparr>" by blast
  obtain rs w2 where a: "allocMeshes (g_meshes gltf) ?w1 = (rs, w2)"
    by (cases "allocMeshes (g_meshes gltf) ?w1")
  with l s have l': "length rs = length (g_meshes gltf)"
    and s': "w2 = ?w1\<lparr>nextRef := n, objects := obj\<rparr>" by simp_all
  show "buildingObjects (snd (loaded req gltf w)) = buildingObjects w"
    "buildingVisuals (snd (loaded req gltf w)) = buildingVisuals w"
    "pending (snd (loaded req gltf w)) = pending w"
    "console (snd (loaded req gltf w)) = console w"
    "length (loadedMeshes (snd (loaded req gltf w)) (md_visual (fst (loaded req gltf w))))
     = length (g_meshes gltf)"
    using a l' s'
    by (simp_all add: loaded_def newRef_def Let_def sceneAdd_def addBody_def)
qed

lemma createDebris_keeps:
  "buildingVisuals (createDebris three b m mw child w) = buildingVisuals w"
  "pending (createDebris three b m mw child w) = pending w"
  "console (createDebris three b m mw child w) = console w"
  "damaged (buildingObjects (createDebris three b m mw child w) b) = damaged (buildingObjects w b)"
  "length (crackedBodies (buildingObjects (createDebris three b m mw child w) b))
     = Suc (length (crackedBodies (buildingObjects w b)))"
  by (simp_all add: createDebris_def newRef_def Let_def sceneAdd_def addBody_def)

lemma fold_createDebris_keeps:
  "buildingVisuals (fold (createDebris three b m mw) cs w) = buildingVisuals w \<and>
   pending (fold (createDebris three b m mw) cs w) = pending w \<and>
   console (fold (createDebris three b m mw) cs w) = console w \<and>
   damaged (buildingObjects (fold (createDebris three b m mw) cs w) b)
     = damaged (buildingObjects w b) \<and>
   length (crackedBodies (buildingObjects (fold (createDebris three b m mw) cs w) b))
     = length (crackedBodies (buildingObjects w b)) + length cs"
  by (induction cs arbitrary: w) (simp_all add: createDebris_keeps)

lemma damageOnLoad_keeps:
  "buildingVisuals (damageOnLoad three b pos q m md w) = buildingVisuals w"
  "pending (damageOnLoad three b pos q m md w) = pending w"
  "console (damageOnLoad three b pos q m md w) = console w"
  "damaged (buildingObjects (damageOnLoad three b pos q m md w) b) = damaged (buildingObjects w b)"
  "length (crackedBodies (buildingObjects (damageOnLoad three b pos q m md w) b))
     = length (loadedMeshes w (md_visual md))"
  by (simp_all add: damageOnLoad_def Let_def md_body_def fold_createDebris_keeps)

subsection \<open>The scan of a damaged building\<close>

lemma fold_moveDebris_bodies:
  "\<exists>bd r'. fold (moveDebris t) ds (w, r) = (w\<lparr>bodies := bd\<rparr>, r')"
proof (induction ds arbitrary: w r)
  case Nil
  have "(w, r) = (w\<lparr>bodies := bodies w\<rparr>, r)" by simp
  then show ?case unfolding fold_simps id_apply by blast
next
  case (Cons d ds)
  obtain bd0 where m: "moveDebris t d (w, r) = (w\<lparr>bodies := bd0\<rparr>, skip 2 r)"
    by (simp add: moveDebris_def)
  from Cons.IH[of "w\<lparr>bodies := bd0\<rparr>" "skip 2 r"] obtain bd r' where
    "fold (moveDebris t) ds (w\<lparr>bodies := bd0\<rparr>, skip 2 r) = (w\<lparr>bodies := bd0, bodies := bd\<rparr>, r')"
    by auto
  then have "fold (moveDebris t) (d # ds) (w, r) = (w\<lparr>bodies := bd\<rparr>, r')"
    using m by simp
  then show ?case by blast
qed

lemma scanBuilding_bodies:
  "\<exists>bd r'. scanBuilding t (bid, b) (w, r) = ((damageScan t bid b w)\<lparr>bodies := bd\<rparr>, r')"
proof (cases "damaged (buildingObjects (damageScan t bid b w) b) \<and>
              length (crackedBodies (buildingObjects (damageScan t bid b w) b)) > 0")
  case True
  then show ?thesis
    using fold_moveDebris_bodies[of t "crackedBodies (buildingObjects (damageScan t bid b w) b)"
            "damageScan t bid b w" r]
    by (simp add: scanBuilding_def Let_def)
next
  case False
  have "scanBuilding t (bid, b) (w, r) = (damageScan t bid b w, r)"
    using False by (auto simp: scanBuilding_def Let_def)
  then have "scanBuilding t (bid, b) (w, r)
               = ((damageScan t bid b w)\<lparr>bodies := bodies (damageScan t bid b w)\<rparr>, r)"
    by simp
  then show ?thesis by blast
qed

lemma scanBuilding_damaged:
  assumes "damaged (buildingObjects w b)"
  shows "\<exists>bd r'. scanBuilding t (bid, b) (w, r) = (w\<lparr>bodies := bd\<rparr>, r')"
  using scanBuilding_bodies[of t bid b w r] damageScan_damaged[OF assms, of t bid] by simp

subsection \<open>One set of fragments\<close>

lemma fragments_once:
  assumes "map_of (buildingVisuals w) bid = Some b" "\<not> damaged (buildingObjects w b)"
  shows "\<exists>w'. loadSucceeds three (length (pending w)) gltf (damageBuilding bid w) = Inr w' \<and>
           length (crackedBodies (buildingObjects w' b)) = length (g_meshes gltf) \<and>
           pending w' = pending w \<and> damageBuilding bid w' = w'"
proof -
  let ?w1 = "damageBuilding bid w"
  let ?i = "length (pending w)"
  note d = damageBuilding_intact[OF assms]
  obtain pos q m where cb: "req_onLoad (pending ?w1 ! ?i) = DamageOnLoad b pos q m"
    using d(10) by blast
  let ?w2 = "?w1\<lparr>pending := take ?i (pending ?w1) @ drop (Suc ?i) (pending ?w1)\<rparr>"
  have p2: "pending ?w2 = pending w" using d(7,8) by simp
  obtain md w3 where ld: "loaded (pending ?w1 ! ?i) gltf ?w2 = (md, w3)"
    by (cases "loaded (pending ?w1 ! ?i) gltf ?w2")
  have k: "buildingObjects w3 = buildingObjects ?w1" "buildingVisuals w3 = buildingVisuals w"
    "pending w3 = pending w" "length (loadedMeshes w3 (md_visual md)) = length (g_meshes gltf)"
    using loaded_keeps[of "pending ?w1 ! ?i" gltf ?w2] ld p2 d(1) by simp_all
  let ?w' = "damageOnLoad three b pos q m md w3"
  have r: "loadSucceeds three ?i gltf ?w1 = Inr ?w'"
    using d(7) ld cb by (simp add: loadSucceeds_def Let_def runOnLoad_def)
  have "map_of (buildingVisuals ?w') bid = Some b"
    using k(2) assms(1) by (simp add: damageOnLoad_keeps)
  moreover have "damaged (buildingObjects ?w' b)"
    using k(1) d(2) by (simp add: damageOnLoad_keeps)
  ultimately have "damageBuilding bid ?w' = ?w'" by (rule damageBuilding_damaged)
  moreover have "length (crackedBodies (buildingObjects ?w' b)) = length (g_meshes gltf)"
    using k(4) by (simp add: damageOnLoad_keeps)
  moreover have "pending ?w' = pending w" using k(3) by (simp add: damageOnLoad_keeps)
  ultimately show ?thesis using r by blast
qed

text \<open>
  C5. The destruction transition is guarded by the damaged flag. On a building whose flag
  is set, \<open>damageBuilding\<close> and the damage test of the per-frame scan leave the whole
  state unchanged, and the scan's round for that building changes nothing but the forces
  and torques of bodies. A second \<open>damageBuilding\<close> right after the first changes nothing.
  And when the load started by the transition completes, after two invocations as after
  one, the building holds exactly one fragment per mesh of the broken model, no request
  is left waiting, and a further invocation is again a no-op: one set of fragments,
  never two.
\<close>

theorem C5_damage_idempotent:
  assumes "map_of (buildingVisuals w) buildingId = Some b"
  shows "(damaged (buildingObjects w b) \<longrightarrow>
            damageBuilding buildingId w = w \<and> damageScan t buildingId b w = w \<and>
            (\<exists>bd r'. scanBuilding t (buildingId, b) (w, r) = (w\<lparr>bodies := bd\<rparr>, r'))) \<and>
         damageBuilding buildingId (damageBuilding buildingId w) = damageBuilding buildingId w \<and>
         (\<not> damaged (buildingObjects w b) \<longrightarrow>
            (\<exists>w'. loadSucceeds three (length (pending w)) gltf
                     (damageBuilding buildingId (damageBuilding buildingId w)) = Inr w' \<and>
                   length (crackedBodies (buildingObjects w' b)) = length (g_meshes gltf) \<and>
                   pending w' = pending w \<and>
                   damageBuilding buildingId w' = w'))"
proof (intro conjI impI)
  assume d: "damaged (buildingObjects w b)"
  show "damageBuilding buildingId w = w" using assms d by (rule damageBuilding_damaged)
  show "damageScan t buildingId b w = w" using d by (rule damageScan_damaged)
  show "\<exists>bd r'. scanBuilding t (buildingId, b) (w, r) = (w\<lparr>bodies := bd\<rparr>, r')"
    using d by (rule scanBuilding_damaged)
next
  show "damageBuilding buildingId (damageBuilding buildingId w) = damageBuilding buildingId w"
    using assms by (rule damageBuilding_idem)
next
  assume "\<not> damaged (buildingObjects w b)"
  from fragments_once[OF assms this, of three gltf]
  show "\<exists>w'. loadSucceeds three (length (pending w)) gltf
                (damageBuilding buildingId (damageBuilding buildingId w)) = Inr w' \<and>
              length (crackedBodies (buildingObjects w' b)) = length (g_meshes gltf) \<and>
              pending w' = pending w \<and>
              damageBuilding buildingId w' = w'"
    by (simp add: damageBuilding_idem[OF assms])
qed

subsection \<open>A failed load of the broken model\<close>

text \<open>
  C6, amended. When the load of the broken model fails during a destruction transition,
  the failure is passed to \<open>console.error\<close> and nothing is thrown, but the building
  is not restored: its damaged flag is set, its intact visual is no longer in the scene,
  its fragment list is what it was before (empty for an intact building), no request is
  left waiting, and every later \<open>damageBuilding\<close> on it is a no-op.
\<close>

theorem C6_failed_load:
  assumes "map_of (buildingVisuals w) buildingId = Some b" "\<not> damaged (buildingObjects w b)"
  shows "(let w' = loadFails (length (pending w)) err (damageBuilding buildingId w)
          in damaged (buildingObjects w' b) \<and>
             visual (buildingObjects w b) \<notin> set (scene w') \<and>
             crackedBodies (buildingObjects w' b) = crackedBodies (buildingObjects w b) \<and>
             console w' = console w @ [err] \<and>
             pending w' = pending w \<and>
             damageBuilding buildingId w' = w')"
proof -
  note d = damageBuilding_intact[OF assms]
  let ?w' = "loadFails (length (pending w)) err (damageBuilding buildingId w)"
  have e: "?w' = (damageBuilding buildingId w)\<lparr>pending := pending w,
                   console := console w @ [err]\<rparr>"
    using d(5,7,8,9) by (simp add: loadFails_def Let_def)
  have 1: "damaged (buildingObjects ?w' b)" by (simp add: e d(2))
  have 2: "visual (buildingObjects w b) \<notin> set (scene ?w')" by (simp add: e d(4))
  have 3: "crackedBodies (buildingObjects ?w' b) = crackedBodies (buildingObjects w b)"
    by (simp add: e d(2))
  have "map_of (buildingVisuals ?w') buildingId = Some b" using assms(1) by (simp add: e d(1))
  from damageBuilding_damaged[OF this 1] have 4: "damageBuilding buildingId ?w' = ?w'" .
  show ?thesis using 1 2 3 4 by (simp add: Let_def) (simp add: e)
qed

lemma world2_building:
  "map_of (buildingVisuals world2) ''s_h_7'' = Some 3"
  "\<not> damaged (buildingObjects world2 3)"
  "visual (buildingObjects world2 3) = 1"
  "crackedBodies (buildingObjects world2 3) = []"
  "pending world2 = []"
  "scene world2 = [0, 1]"
  "physicsWorld world2 = [2]"
  "tornado world2 = Some scenarioTornado"
  "buildingVisuals world2 = [(''s_h_7'', 3)]"
  "damageThreshold world2 = 30"
  "o_position (objects world2 (Suc 0)) = vec3 15 0 0"
  by (simp_all add: world2_def modelNode_def)

text \<open>
  C6, as stated: after a failed load the building keeps its previous visible state, with
  the intact visual in the scene and the damaged flag false. In the scenario the visual
  is in the scene and the flag is false before the transition; after the failed load the
  flag is true and the visual is gone.
\<close>

theorem C6_counterexample:
  "visual (buildingObjects world2 3) \<in> set (scene world2) \<and>
   \<not> damaged (buildingObjects world2 3) \<and>
   loadFails 0 ''404'' (damageBuilding ''s_h_7'' world2) = world3f \<and>
   damaged (buildingObjects world3f 3) \<and>
   visual (buildingObjects world2 3) \<notin> set (scene world3f)"
  by (simp add: world2_building world3_reached world3f_reached) (simp add: world3f_def)

text \<open>The amended claim at the scenario's intact building.\<close>

theorem C6_witness:
  "map_of (buildingVisuals world2) ''s_h_7'' = Some 3 \<and>
   \<not> damaged (buildingObjects world2 3) \<and>
   (let w' = loadFails (length (pending world2)) ''404'' (damageBuilding ''s_h_7'' world2)
    in damaged (buildingObjects w' 3) \<and>
       visual (buildingObjects world2 3) \<notin> set (scene w') \<and>
       crackedBodies (buildingObjects w' 3) = crackedBodies (buildingObjects world2 3) \<and>
       console w' = console world2 @ [''404''] \<and>
       pending w' = pending world2 \<and>
       damageBuilding ''s_h_7'' w' = w')"
  using C6_failed_load [of world2 "''s_h_7''" 3 "''404''"] world2_building(1,2)
  by blast

subsection \<open>The idempotence at the scenario's building\<close>

lemma world4_building:
  "map_of (buildingVisuals world4) ''s_h_7'' = Some 3"
  "damaged (buildingObjects world4 3)"
  "crackedBodies (buildingObjects world4 3) = [\<lparr>part_self = 8, part_mesh = 5, part_body = 7\<rparr>]"
  "physicsWorld world4 = [2, 6, 7]"
  "scene world4 = [0, 4, 5]"
  "bodies world4 7 = \<lparr>b_mass = 2, b_halfExtents = vec3 (17 / 20) (17 / 20) (17 / 20),
     b_linearDamping = 1 / 20, b_angularDamping = 1 / 20, b_position = vec3 15 (6 / 5) 0,
     b_quaternion = identityQuaternion, b_force = vec3 0 0 0, b_torque = vec3 0 0 0\<rparr>"
  by (simp_all add: world4_def)

text \<open>C5 at the damaged building of the scenario and at the intact one.\<close>

theorem C5_witness:
  "map_of (buildingVisuals world4) ''s_h_7'' = Some 3 \<and>
   damaged (buildingObjects world4 3) \<and>
   damageBuilding ''s_h_7'' world4 = world4 \<and>
   damageScan scenarioTornado ''s_h_7'' 3 world4 = world4 \<and>
   (\<exists>bd r'. scanBuilding scenarioTornado (''s_h_7'', 3) (world4, \<lambda>k. 1 / 2)
               = (world4\<lparr>bodies := bd\<rparr>, r')) \<and>
   map_of (buildingVisuals world2) ''s_h_7'' = Some 3 \<and>
   \<not> damaged (buildingObjects world2 3) \<and>
   damageBuilding ''s_h_7'' (damageBuilding ''s_h_7'' world2) = damageBuilding ''s_h_7'' world2 \<and>
   (\<exists>w'. loadSucceeds three0 (length (pending world2)) crackedGltf
            (damageBuilding ''s_h_7'' (damageBuilding ''s_h_7'' world2)) = Inr w' \<and>
          length (crackedBodies (buildingObjects w' 3)) = length (g_meshes crackedGltf) \<and>
          pending w' = pending world2 \<and>
          damageBuilding ''s_h_7'' w' = w')"
  using C5_damage_idempotent [OF world4_building(1), of scenarioTornado "\<lambda>k. 1 / 2" three0 crackedGltf]
        C5_damage_idempotent [OF world2_building(1), of scenarioTornado "\<lambda>k. 1 / 2" three0 crackedGltf]
        world4_building(1,2) world2_building(1,2)
  by blast

section \<open>Unknown ids\<close>

lemma undefined_slot:
  "slots w sid = None \<Longrightarrow> slots w ''__proto__'' = None \<Longrightarrow> sid \<notin> set (prototypeMembers w) \<Longrightarrow>
   getProperty w (slots w) slotFields sid = Undefined"
  by (simp add: getProperty_def)

lemma inherited_slot:
  "slots w sid = None \<Longrightarrow> slots w ''__proto__'' = None \<Longrightarrow> sid \<in> set (prototypeMembers w) \<Longrightarrow>
   getProperty w (slots w) slotFields sid = Inherited"
  by (simp add: getProperty_def)

text \<open>
  C7, amended. An id is unknown to a registry in two ways. A building id that is neither
  registered nor the name of a member of \<open>Object.prototype\<close> reads \<open>undefined\<close>:
  \<open>damageBuilding\<close> is a no-op that returns normally. A slot id of that kind, in a
  registry where no slot is registered under \<open>__proto__\<close>, reads \<open>undefined\<close> too,
  and \<open>placeBuilding\<close> and \<open>demolishBuilding\<close> throw a \<open>TypeError\<close>, with the
  state unchanged. An id that is not registered but names a member of
  \<open>Object.prototype\<close> finds that member: \<open>damageBuilding\<close> returns normally and
  changes nothing when the member has \<open>damaged\<close> set, and otherwise sets it and throws
  a \<open>TypeError\<close>; \<open>demolishBuilding\<close> returns normally and changes nothing;
  \<open>placeBuilding\<close> with a registered building type returns normally with the load of
  the intact model started, at the default position (0, 0, 0).
\<close>

theorem C7_unknown_ids:
  "(map_of (buildingVisuals w) buildingId = None \<and> buildingId \<notin> set (prototypeMembers w) \<longrightarrow>
      damageBuilding buildingId w = w \<and> \<not> damageBuildingThrows buildingId w) \<and>
   (slots w sid = None \<and> slots w ''__proto__'' = None \<and> sid \<notin> set (prototypeMembers w) \<longrightarrow>
      placeBuilding sid buildingType now w = Inl (TypeError, w) \<and>
      demolishBuilding sid w = Inl (TypeError, w)) \<and>
   (map_of (buildingVisuals w) buildingId = None \<and> buildingId \<in> set (prototypeMembers w) \<longrightarrow>
      damageBuildingThrows buildingId w = (\<not> inheritedDamaged w buildingId) \<and>
      damageBuilding buildingId w =
        (if inheritedDamaged w buildingId then w
         else w\<lparr>protoDamaged := protoDamaged w @ [buildingId]\<rparr>)) \<and>
   (slots w sid = None \<and> slots w ''__proto__'' = None \<and> sid \<in> set (prototypeMembers w) \<longrightarrow>
      demolishBuilding sid w = Inr w \<and>
      (buildings w buildingType = Some paths \<longrightarrow>
         placeBuilding sid buildingType now w =
           Inr (w\<lparr>pending := pending w @
                  [\<lparr>req_path = bp_intact paths, req_mass = 0, req_position = vec3 0 0 0,
                    req_scale = 1, req_friction = 0.5, req_restitution = 0.2,
                    req_onLoad = PlaceOnLoad None sid buildingType
                                   (sid @ ''_'' @ buildingType @ ''_'' @ toString now) paths,
                    req_catch = CatchIgnore\<rparr>]\<rparr>)))"
  by (auto simp: damageBuilding_def damageBuildingThrows_def buildingVisualsProperty_def
      placeBuilding_def demolishBuilding_def undefined_slot inherited_slot ownProperty_def
      getProperty_def[of w "buildings w"] load_def Let_def)


lemma world0_unknown:
  "map_of (buildingVisuals world0) ''x'' = None" "slots world0 ''x'' = None"
  "slots world0 ''__proto__'' = None" "''x'' \<notin> set (prototypeMembers world0)"
  "map_of (buildingVisuals world0) ''constructor'' = None"
  "''constructor'' \<in> set (prototypeMembers world0)"
  "slots world0 ''toString'' = None" "''toString'' \<in> set (prototypeMembers world0)"
  "\<not> inheritedDamaged world0 ''constructor''"
  "buildings world0 ''h'' = Some housePaths"
  "pending world0 = []" "protoDamaged world0 = []"
  by (simp_all add: world0_def prototypeMembers_def objectPrototypeMembers_def
      inheritedDamaged_def)

text \<open>
  C7, as stated: every registry operation addressed to an unknown id returns normally and
  changes no state. In the scenario's registry the slot id \<open>x\<close> is not registered, and
  both slot operations throw; the building id \<open>constructor\<close> is not registered, and
  \<open>damageBuilding\<close> throws after it has set \<open>damaged\<close> on the function
  \<open>Object\<close>; the slot id \<open>toString\<close> is not registered, and \<open>placeBuilding\<close>
  leaves a load waiting.
\<close>

theorem C7_counterexample:
  "slots world0 ''x'' = None \<and>
   demolishBuilding ''x'' world0 = Inl (TypeError, world0) \<and>
   placeBuilding ''x'' ''h'' 7 world0 = Inl (TypeError, world0) \<and>
   map_of (buildingVisuals world0) ''constructor'' = None \<and>
   damageBuildingThrows ''constructor'' world0 \<and>
   damageBuilding ''constructor'' world0 = world0\<lparr>protoDamaged := [''constructor'']\<rparr> \<and>
   damageBuilding ''constructor'' world0 \<noteq> world0 \<and>
   slots world0 ''toString'' = None \<and>
   demolishBuilding ''toString'' world0 = Inr world0 \<and>
   placeBuilding ''toString'' ''h'' 7 world0 =
     Inr (world0\<lparr>pending :=
            [\<lparr>req_path = ''i'', req_mass = 0, req_position = vec3 0 0 0, req_scale = 1,
              req_friction = 1 / 2, req_restitution = 1 / 5,
              req_onLoad = PlaceOnLoad None ''toString'' ''h'' ''toString_h_7'' housePaths,
              req_catch = CatchIgnore\<rparr>]\<rparr>) \<and>
   placeBuilding ''toString'' ''h'' 7 world0 \<noteq> Inr world0"
proof -
  have 1: "demolishBuilding ''x'' world0 = Inl (TypeError, world0)"
    by (simp add: demolishBuilding_def getProperty_def world0_unknown)
  have 2: "placeBuilding ''x'' ''h'' 7 world0 = Inl (TypeError, world0)"
    by (simp add: placeBuilding_def getProperty_def world0_unknown)
  have 3: "damageBuildingThrows ''constructor'' world0"
    by (simp add: damageBuildingThrows_def buildingVisualsProperty_def world0_unknown)
  have 4: "damageBuilding ''constructor'' world0 = world0\<lparr>protoDamaged := [''constructor'']\<rparr>"
    by (simp add: damageBuilding_def buildingVisualsProperty_def world0_unknown)
  have 5: "damageBuilding ''constructor'' world0 \<noteq> world0"
  proof
    assume "damageBuilding ''constructor'' world0 = world0"
    then have "protoDamaged (damageBuilding ''constructor'' world0) = protoDamaged world0"
      by (rule arg_cong)
    then show False by (simp add: 4 world0_unknown)
  qed
  have 6: "demolishBuilding ''toString'' world0 = Inr world0"
    by (simp add: demolishBuilding_def getProperty_def world0_unknown)
  have 7: "placeBuilding ''toString'' ''h'' 7 world0 =
     Inr (world0\<lparr>pending :=
            [\<lparr>req_path = ''i'', req_mass = 0, req_position = vec3 0 0 0, req_scale = 1,
              req_friction = 1 / 2, req_restitution = 1 / 5,
              req_onLoad = PlaceOnLoad None ''toString'' ''h'' ''toString_h_7'' housePaths,
              req_catch = CatchIgnore\<rparr>]\<rparr>)"
    by (simp add: placeBuilding_def getProperty_def[of world0 "slots world0"] world0_unknown
        ownProperty_def getProperty_def[of world0 "buildings world0"] load_def Let_def digits
        housePaths_def)
  have 8: "placeBuilding ''toString'' ''h'' 7 world0 \<noteq> Inr world0"
  proof
    assume "placeBuilding ''toString'' ''h'' 7 world0 = Inr world0"
    then have "projr (placeBuilding ''toString'' ''h'' 7 world0) = world0" by simp
    then have "pending (projr (placeBuilding ''toString'' ''h'' 7 world0)) = pending world0"
      by (rule arg_cong)
    then show False by (simp add: 7 world0_unknown)
  qed
  from 1 2 3 4 5 6 7 8 world0_unknown(2,5,7) show ?thesis by blast
qed

text \<open>The amended claim at the scenario's registry, for the ids \<open>x\<close>,
  \<open>constructor\<close> and \<open>toString\<close>.\<close>

theorem C7_witness:
  "map_of (buildingVisuals world0) ''x'' = None \<and> ''x'' \<notin> set (prototypeMembers world0) \<and>
   damageBuilding ''x'' world0 = world0 \<and> \<not> damageBuildingThrows ''x'' world0 \<and>
   slots world0 ''x'' = None \<and> slots world0 ''__proto__'' = None \<and>
   placeBuilding ''x'' ''h'' 7 world0 = Inl (TypeError, world0) \<and>
   demolishBuilding ''x'' world0 = Inl (TypeError, world0) \<and>
   map_of (buildingVisuals world0) ''constructor'' = None \<and>
   ''constructor'' \<in> set (prototypeMembers world0) \<and>
   \<not> inheritedDamaged world0 ''constructor'' \<and>
   damageBuildingThrows ''constructor'' world0 \<and>
   damageBuilding ''constructor'' world0
     = world0\<lparr>protoDamaged := protoDamaged world0 @ [''constructor'']\<rparr> \<and>
   slots world0 ''toString'' = None \<and> ''toString'' \<in> set (prototypeMembers world0) \<and>
   demolishBuilding ''toString'' world0 = Inr world0 \<and>
   buildings world0 ''h'' = Some housePaths \<and>
   placeBuilding ''toString'' ''h'' 7 world0 =
     Inr (world0\<lparr>pending := pending world0 @
            [\<lparr>req_path = bp_intact housePaths, req_mass = 0, req_position = vec3 0 0 0,
              req_scale = 1, req_friction = 0.5, req_restitution = 0.2,
              req_onLoad = PlaceOnLoad None ''toString'' ''h''
                             (''toString'' @ ''_'' @ ''h'' @ ''_'' @ toString 7) housePaths,
              req_catch = CatchIgnore\<rparr>]\<rparr>)"
proof -
  note a = C7_unknown_ids[of world0 "''x''" "''x''" "''h''" 7 housePaths]
  note b = C7_unknown_ids[of world0 "''constructor''" "''toString''" "''h''" 7 housePaths]
  note u = world0_unknown
  from b u(5,6,9) have c: "damageBuildingThrows ''constructor'' world0 \<and>
     damageBuilding ''constructor'' world0
       = world0\<lparr>protoDamaged := protoDamaged world0 @ [''constructor'']\<rparr>"
    by simp
  from a b c u(1-10) show ?thesis by blast
qed

section \<open>The per-frame damage scan\<close>

lemma damageScan_step:
  assumes "map_of (buildingVisuals w) bid = Some b"
  shows "objects (damageScan t bid b w) = objects w"
    and "damageThreshold (damageScan t bid b w) = damageThreshold w"
    and "buildingVisuals (damageScan t bid b w) = buildingVisuals w"
    and "visual (buildingObjects (damageScan t bid b w) x) = visual (buildingObjects w x)"
    and "damaged (buildingObjects (damageScan t bid b w) x) \<longleftrightarrow>
           damaged (buildingObjects w x) \<or>
           (x = b \<and> distanceTo (o_position (objects w (visual (buildingObjects w b)))) (position t)
                      < damageThreshold w)"
  using assms damageBuilding_intact[OF assms]
  by (auto simp: damageScan_def Let_def)

lemma scanBuilding_step:
  assumes "map_of (buildingVisuals w) bid = Some b"
  shows "objects (fst (scanBuilding t (bid, b) (w, r))) = objects w"
    and "damageThreshold (fst (scanBuilding t (bid, b) (w, r))) = damageThreshold w"
    and "buildingVisuals (fst (scanBuilding t (bid, b) (w, r))) = buildingVisuals w"
    and "visual (buildingObjects (fst (scanBuilding t (bid, b) (w, r))) x)
           = visual (buildingObjects w x)"
    and "damaged (buildingObjects (fst (scanBuilding t (bid, b) (w, r))) x) \<longleftrightarrow>
           damaged (buildingObjects w x) \<or>
           (x = b \<and> distanceTo (o_position (objects w (visual (buildingObjects w b)))) (position t)
                      < damageThreshold w)"
proof -
  obtain bd r' where s: "scanBuilding t (bid, b) (w, r) = ((damageScan t bid b w)\<lparr>bodies := bd\<rparr>, r')"
    using scanBuilding_bodies by blast
  note d = damageScan_step[OF assms]
  show "objects (fst (scanBuilding t (bid, b) (w, r))) = objects w" by (simp add: s d)
  show "damageThreshold (fst (scanBuilding t (bid, b) (w, r))) = damageThreshold w" by (simp add: s d)
  show "buildingVisuals (fst (scanBuilding t (bid, b) (w, r))) = buildingVisuals w" by (simp add: s d)
  show "visual (buildingObjects (fst (scanBuilding t (bid, b) (w, r))) x)
           = visual (buildingObjects w x)" by (simp add: s d)
  show "damaged (buildingObjects (fst (scanBuilding t (bid, b) (w, r))) x) \<longleftrightarrow>
           damaged (buildingObjects w x) \<or>
           (x = b \<and> distanceTo (o_position (objects w (visual (buildingObjects w b)))) (position t)
                      < damageThreshold w)" by (simp add: s d(5))
qed

lemma scan_fold:
  assumes "\<forall>e \<in> set xs. map_of (buildingVisuals w) (fst e) = Some (snd e)"
  shows "damaged (buildingObjects (fst (fold (scanBuilding t) xs (w, r))) b) \<longleftrightarrow>
           damaged (buildingObjects w b) \<or>
           (b \<in> snd ` set xs \<and>
            distanceTo (o_position (objects w (visual (buildingObjects w b)))) (position t)
              < damageThreshold w)"
  using assms
proof (induction xs arbitrary: w r)
  case Nil
  then show ?case by simp
next
  case (Cons e xs)
  obtain bid b' where e: "e = (bid, b')" by (cases e)
  have l: "map_of (buildingVisuals w) bid = Some b'" using Cons.prems e by simp
  obtain w1 r1 where s: "scanBuilding t (bid, b') (w, r) = (w1, r1)"
    by (cases "scanBuilding t (bid, b') (w, r)")
  note st = scanBuilding_step[OF l, of t r, unfolded s fst_conv]
  have "\<forall>e \<in> set xs. map_of (buildingVisuals w1) (fst e) = Some (snd e)"
    using Cons.prems by (simp add: st(3))
  from Cons.IH[OF this, of r1]
  have "damaged (buildingObjects (fst (fold (scanBuilding t) xs (w1, r1))) b) \<longleftrightarrow>
           damaged (buildingObjects w1 b) \<or>
           (b \<in> snd ` set xs \<and>
            distanceTo (o_position (objects w (visual (buildingObjects w b)))) (position t)
              < damageThreshold w)"
    by (simp add: st(1,2,4))
  then show ?case using st(5)[of b] e s by auto
qed

text \<open>
  C8, amended. With a tornado set and distinct building ids, a building is damaged after
  the per-frame scan exactly when it was damaged before or the distance between the
  field center and the position of its visual is below \<open>damageThreshold\<close>; for a
  building not yet damaged the scan invokes \<open>damageBuilding\<close> exactly in that case.
  The distance is \<open>distanceTo\<close>, the Euclidean distance of the two points in space: the
  y coordinates count.
\<close>

theorem C8_damage_by_distance:
  assumes "tornado w = Some t" "distinct (map fst (buildingVisuals w))"
    "(buildingId, b) \<in> set (buildingVisuals w)"
  shows "(damaged (buildingObjects (fst (BuildingSlots_applyTornadoForces w r)) b) \<longleftrightarrow>
            damaged (buildingObjects w b) \<or>
            distanceTo (o_position (objects w (visual (buildingObjects w b)))) (position t)
              < damageThreshold w) \<and>
         (\<not> damaged (buildingObjects w b) \<longrightarrow>
            damageScan t buildingId b w =
              (if distanceTo (o_position (objects w (visual (buildingObjects w b)))) (position t)
                    < damageThreshold w
               then damageBuilding buildingId w else w))"
proof -
  have "\<forall>e \<in> set (buildingVisuals w). map_of (buildingVisuals w) (fst e) = Some (snd e)"
    using assms(2) by simp
  from scan_fold[OF this, of t r b] assms(1,3)
  have "damaged (buildingObjects (fst (BuildingSlots_applyTornadoForces w r)) b) \<longleftrightarrow>
            damaged (buildingObjects w b) \<or>
            distanceTo (o_position (objects w (visual (buildingObjects w b)))) (position t)
              < damageThreshold w"
    by (force simp: BuildingSlots_applyTornadoForces_def)
  then show ?thesis by (simp add: damageScan_def Let_def)
qed

lemma distanceTo_vertical: "distanceTo (vec3 a b c) (vec3 a d c) = \<bar>b - d\<bar>"
  by (simp add: distanceTo_def vec3_sel)

lemma distanceTo_same_y: "distanceTo (vec3 a b 0) (vec3 0 b 0) = \<bar>a\<bar>"
  by (simp add: distanceTo_def vec3_sel)

lemma highTornado_position: "position highTornado = vec3 15 40 0"
  by (simp add: highTornado_def)

text \<open>
  C8, as stated: the scan triggers the transition exactly when the planar, y-ignoring
  distance falls below the threshold. With the tornado 40 units above the scenario's
  building the planar distance is 0, below the threshold 30, and the scan leaves the
  state as it is.
\<close>

theorem C8_counterexample:
  "spec_planarDistance (o_position (objects world2 (visual (buildingObjects world2 3))))
      (position highTornado) < damageThreshold world2 \<and>
   \<not> damaged (buildingObjects world2 3) \<and>
   buildingVisuals world2 = [(''s_h_7'', 3)] \<and>
   BuildingSlots_applyTornadoForces (world2\<lparr>tornado := Some highTornado\<rparr>) (\<lambda>k. 1 / 2)
     = (world2\<lparr>tornado := Some highTornado\<rparr>, \<lambda>k. 1 / 2)"
  by (simp add: world2_building BuildingSlots_applyTornadoForces_def scanBuilding_def
      damageScan_def Let_def highTornado_position distanceTo_vertical spec_planarDistance_def
      vec3_sel)

text \<open>The amended claim at the scenario's building, 15 units from the field center.\<close>

theorem C8_witness:
  "tornado world2 = Some scenarioTornado \<and>
   distinct (map fst (buildingVisuals world2)) \<and>
   (''s_h_7'', 3) \<in> set (buildingVisuals world2) \<and>
   (damaged (buildingObjects (fst (BuildingSlots_applyTornadoForces world2 (\<lambda>k. 1 / 2))) 3) \<longleftrightarrow>
      damaged (buildingObjects world2 3) \<or>
      distanceTo (o_position (objects world2 (visual (buildingObjects world2 3))))
        (position scenarioTornado) < damageThreshold world2) \<and>
   \<not> damaged (buildingObjects world2 3) \<and>
   distanceTo (o_position (objects world2 (visual (buildingObjects world2 3))))
        (position scenarioTornado) < damageThreshold world2 \<and>
   damageScan scenarioTornado ''s_h_7'' 3 world2 = damageBuilding ''s_h_7'' world2"
proof -
  have h1: "tornado world2 = Some scenarioTornado" by (simp add: world2_building)
  have h2: "distinct (map fst (buildingVisuals world2))" by (simp add: world2_building)
  have h3: "(''s_h_7'', 3) \<in> set (buildingVisuals world2)" by (simp add: world2_building)
  have h4: "distanceTo (o_position (objects world2 (visual (buildingObjects world2 3))))
        (position scenarioTornado) < damageThreshold world2"
    by (simp add: world2_building scenario_fields distanceTo_same_y)
  from C8_damage_by_distance[OF h1 h2 h3, of "\<lambda>k. 1 / 2"] h1 h2 h3 h4 world2_building(2)
  show ?thesis by simp
qed

section \<open>Force application\<close>




subsection \<open>The loop over the loaded models\<close>


subsection \<open>The loop over the fragments\<close>






















section \<open>Placement on an occupied slot\<close>

lemma world5_fields:
  "physicsWorld world5 = [2, 6, 7]" "scene world5 = [0, 5]"
  "map_option occupied (slots world5 ''s'') = Some False"
  "length (pending world5) = 1" "buildingVisuals world5 = []"
  by (simp_all add: world5_def)

text \<open>
  C10. \<open>placeBuilding\<close> on an occupied slot demolishes the placed building and then
  starts the load of the new one. In the scenario the slot holds a damaged building
  with one fragment: after the call the slot is free, the building is gone from the
  registry and the new request waits, but the physics world holds the same bodies as
  before, the fragment's body 7 and the intact model's body 2 among them, and the
  fragment's mesh 5 is still in the scene. \<open>demolishBuilding\<close> hands the entries of
  \<open>crackedBodies\<close> to \<open>removeBody\<close>, not their bodies, and the building record
  has no \<open>body\<close>.
\<close>

theorem C10_replacement_leaves_bodies:
  "map_option occupied (slots world4 ''s'') = Some True \<and>
   map_option slot_buildingId (slots world4 ''s'') = Some (Some ''s_h_7'') \<and>
   map_of (buildingVisuals world4) ''s_h_7'' = Some 3 \<and>
   crackedBodies (buildingObjects world4 3) = [\<lparr>part_self = 8, part_mesh = 5, part_body = 7\<rparr>] \<and>
   physicsWorld world4 = [2, 6, 7] \<and>
   placeBuilding ''s'' ''h'' 8 world4 = Inr world5 \<and>
   map_option occupied (slots world5 ''s'') = Some False \<and>
   buildingVisuals world5 = [] \<and>
   length (pending world5) = 1 \<and>
   physicsWorld world5 = [2, 6, 7] \<and>
   scene world5 = [0, 5]"
  by (simp add: world4_building world5_fields world5_reached) (simp add: world4_def)

end
